theory Spec2Isabelle
  imports Complex_Main "HOL-Library.Char_ord" "HOL-Library.List_Lexorder"
begin

section \<open>Python values and exceptions\<close>

text \<open>
  The values the server handles are decoded JSON documents (\<open>response.json()\<close>, the
  argument bag of a tool call). JSON numbers are modelled as Python \<open>int\<close>s only: byte
  counts, ids, years and day counts are integers; fractional JSON numbers lie outside this
  model. A decoded object is an association list in insertion order with distinct keys.
\<close>

datatype json =
    JNull
  | JBool bool
  | JInt int
  | JStr string
  | JArr "json list"
  | JObj "(string \<times> json) list"

text \<open>
  Python exceptions as values. Each carries the text that \<open>str(e)\<close> renders, except
  \<open>KeyError\<close>, which carries the missing key. \<open>PyException\<close> is the plain
  \<open>Exception(...)\<close> the client raises for a status error; \<open>TransportError\<close> stands for
  the \<open>httpx\<close> connection and timeout errors; \<open>JSONDecodeError\<close> is raised by
  \<open>response.json()\<close>. The texts of the interpreter's own exceptions are those of
  CPython 3.10; later versions word a few of them differently.
\<close>

datatype py_exc =
    KeyError string
  | TypeError string
  | ValueError string
  | AttributeError string
  | OverflowError string
  | PyException string
  | TransportError string
  | JSONDecodeError string

definition squote :: "string \<Rightarrow> string" where
  "squote s = [CHR 0x27] @ s @ [CHR 0x27]"

text \<open>\<open>str(e)\<close>: a \<open>KeyError\<close> renders the repr of its key; every key looked up by the
  source is a literal identifier, whose repr is the key in single quotes.\<close>

fun str_exc :: "py_exc \<Rightarrow> string" where
  "str_exc (KeyError k) = squote k"
| "str_exc (TypeError m) = m"
| "str_exc (ValueError m) = m"
| "str_exc (AttributeError m) = m"
| "str_exc (OverflowError m) = m"
| "str_exc (PyException m) = m"
| "str_exc (TransportError m) = m"
| "str_exc (JSONDecodeError m) = m"

text \<open>Sequencing of computations that may raise: the first exception wins.\<close>

definition bindE :: "(py_exc + 'a) \<Rightarrow> ('a \<Rightarrow> py_exc + 'b) \<Rightarrow> py_exc + 'b" where
  "bindE m f = (case m of Inl e \<Rightarrow> Inl e | Inr x \<Rightarrow> f x)"

text \<open>A \<open>for\<close> loop over a list that updates an accumulator and stops at the first raise.\<close>

fun for_each :: "('s \<Rightarrow> 'a \<Rightarrow> py_exc + 's) \<Rightarrow> 's \<Rightarrow> 'a list \<Rightarrow> py_exc + 's" where
  "for_each f s [] = Inr s"
| "for_each f s (x # xs) = (case f s x of Inl e \<Rightarrow> Inl e | Inr s' \<Rightarrow> for_each f s' xs)"

subsection \<open>Decimal rendering\<close>

definition digit_char :: "nat \<Rightarrow> char" where
  "digit_char n = char_of (48 + n)"

fun show_nat :: "nat \<Rightarrow> string" where
  "show_nat n = (if n < 10 then [digit_char n] else show_nat (n div 10) @ [digit_char (n mod 10)])"

declare show_nat.simps [simp del]

definition show_int :: "int \<Rightarrow> string" where
  "show_int i = (if i < 0 then ''-'' @ show_nat (nat (- i)) else show_nat (nat i))"

text \<open>Zero padding to a fixed width, as \<open>%02d\<close>, \<open>%04d\<close>, \<open>%06d\<close> on a natural number.\<close>

definition zpad :: "nat \<Rightarrow> nat \<Rightarrow> string" where
  "zpad w n = replicate (w - length (show_nat n)) (CHR ''0'') @ show_nat n"

definition hex_digit :: "nat \<Rightarrow> char" where
  "hex_digit n = (if n < 10 then char_of (48 + n) else char_of (87 + n))"

subsection \<open>\<open>str\<close>, \<open>repr\<close>, truth value, iteration and lookup\<close>

definition py_type_name :: "json \<Rightarrow> string" where
  "py_type_name v = (case v of JNull \<Rightarrow> ''NoneType'' | JBool _ \<Rightarrow> ''bool'' | JInt _ \<Rightarrow> ''int''
     | JStr _ \<Rightarrow> ''str'' | JArr _ \<Rightarrow> ''list'' | JObj _ \<Rightarrow> ''dict'')"

text \<open>
  \<open>repr\<close> of a string whose characters are code points below 256: single quotes unless
  the string holds a single quote and no double quote; backslash, the chosen quote, newline,
  carriage return and tab are escaped; the other non-printable code points print as
  \<open>\xNN\<close>.
\<close>

definition repr_char :: "char \<Rightarrow> char \<Rightarrow> string" where
  "repr_char q c =
     (let n = (of_char c :: nat) in
      if c = q \<or> n = 92 then [char_of (92::nat), c]
      else if n = 10 then [char_of (92::nat), CHR ''n'']
      else if n = 13 then [char_of (92::nat), CHR ''r'']
      else if n = 9 then [char_of (92::nat), CHR ''t'']
      else if n < 32 \<or> (127 \<le> n \<and> n \<le> 160) \<or> n = 173
        then [char_of (92::nat), CHR ''x'', hex_digit (n div 16), hex_digit (n mod 16)]
      else [c])"

definition repr_str :: "string \<Rightarrow> string" where
  "repr_str s =
     (let q = (if CHR 0x27 \<in> set s \<and> CHR 0x22 \<notin> set s then CHR 0x22 else CHR 0x27)
      in [q] @ concat (map (repr_char q) s) @ [q])"

fun join_with :: "string \<Rightarrow> string list \<Rightarrow> string" where
  "join_with sep [] = []"
| "join_with sep [x] = x"
| "join_with sep (x # y # ys) = x @ sep @ join_with sep (y # ys)"

primrec py_repr :: "json \<Rightarrow> string" where
  "py_repr JNull = ''None''"
| "py_repr (JBool b) = (if b then ''True'' else ''False'')"
| "py_repr (JInt i) = show_int i"
| "py_repr (JStr s) = repr_str s"
| "py_repr (JArr xs) = ''['' @ join_with '', '' (map py_repr xs) @ '']''"
| "py_repr (JObj kvs) =
     ''{'' @ join_with '', '' (map (\<lambda>kv. repr_str (fst kv) @ '': '' @ snd kv)
                                   (map (map_prod id py_repr) kvs)) @ ''}''"

text \<open>\<open>str(v)\<close>, which is what an f-string field without format spec renders.\<close>

definition py_str :: "json \<Rightarrow> string" where
  "py_str v = (case v of JStr s \<Rightarrow> s | _ \<Rightarrow> py_repr v)"

text \<open>Truth value, as tested by \<open>if not v\<close>.\<close>

definition py_truthy :: "json \<Rightarrow> bool" where
  "py_truthy v = (case v of JNull \<Rightarrow> False | JBool b \<Rightarrow> b | JInt i \<Rightarrow> i \<noteq> 0
     | JStr s \<Rightarrow> s \<noteq> [] | JArr xs \<Rightarrow> xs \<noteq> [] | JObj kvs \<Rightarrow> kvs \<noteq> [])"

text \<open>The elements a \<open>for\<close> loop visits: a dict yields its keys, a string its characters.\<close>

definition py_iter :: "json \<Rightarrow> py_exc + json list" where
  "py_iter v = (case v of
       JArr xs \<Rightarrow> Inr xs
     | JObj kvs \<Rightarrow> Inr (map (\<lambda>kv. JStr (fst kv)) kvs)
     | JStr s \<Rightarrow> Inr (map (\<lambda>c. JStr [c]) s)
     | _ \<Rightarrow> Inl (TypeError (squote (py_type_name v) @ '' object is not iterable'')))"

text \<open>\<open>v[k]\<close> with a string key \<open>k\<close>.\<close>

definition py_getitem :: "json \<Rightarrow> string \<Rightarrow> py_exc + json" where
  "py_getitem v k = (case v of
       JObj kvs \<Rightarrow> (case map_of kvs k of Some x \<Rightarrow> Inr x | None \<Rightarrow> Inl (KeyError k))
     | JStr _ \<Rightarrow> Inl (TypeError ''string indices must be integers'')
     | JArr _ \<Rightarrow> Inl (TypeError ''list indices must be integers or slices, not str'')
     | _ \<Rightarrow> Inl (TypeError (squote (py_type_name v) @ '' object is not subscriptable'')))"

definition no_attribute :: "json \<Rightarrow> string \<Rightarrow> py_exc" where
  "no_attribute v a =
     AttributeError (squote (py_type_name v) @ '' object has no attribute '' @ squote a)"

text \<open>\<open>v.get(k, d)\<close>: only a dict has the method.\<close>

definition py_get :: "json \<Rightarrow> string \<Rightarrow> json \<Rightarrow> py_exc + json" where
  "py_get v k d = (case v of
       JObj kvs \<Rightarrow> (case map_of kvs k of Some x \<Rightarrow> Inr x | None \<Rightarrow> Inr d)
     | _ \<Rightarrow> Inl (no_attribute v ''get''))"

subsection \<open>String methods\<close>

text \<open>\<open>s.lower()\<close> on code points below 256.\<close>

definition lower_char :: "char \<Rightarrow> char" where
  "lower_char c =
     (let n = (of_char c :: nat) in
      if (65 \<le> n \<and> n \<le> 90) \<or> (192 \<le> n \<and> n \<le> 222 \<and> n \<noteq> 215) then char_of (n + 32) else c)"

definition py_lower :: "json \<Rightarrow> py_exc + string" where
  "py_lower v = (case v of JStr s \<Rightarrow> Inr (map lower_char s) | _ \<Rightarrow> Inl (no_attribute v ''lower''))"

text \<open>\<open>s.replace("Z", "+00:00")\<close>: every \<open>Z\<close> is replaced, not only a trailing one.\<close>

definition py_replace_Z :: "json \<Rightarrow> py_exc + string" where
  "py_replace_Z v = (case v of
       JStr s \<Rightarrow> Inr (concat (map (\<lambda>c. if c = CHR ''Z'' then ''+00:00'' else [c]) s))
     | _ \<Rightarrow> Inl (no_attribute v ''replace''))"

text \<open>\<open>sub in s\<close> on strings: \<open>sub\<close> occurs in \<open>s\<close> as a contiguous block.\<close>

fun py_contains :: "string \<Rightarrow> string \<Rightarrow> bool" where
  "py_contains sub [] = (sub = [])"
| "py_contains sub (c # cs) = (take (length sub) (c # cs) = sub \<or> py_contains sub cs)"

subsection \<open>Number parsing and formatting\<close>

definition is_digit :: "char \<Rightarrow> bool" where
  "is_digit c = (48 \<le> (of_char c :: nat) \<and> (of_char c :: nat) \<le> 57)"

definition digits_value :: "string \<Rightarrow> nat" where
  "digits_value s = foldl (\<lambda>acc c. 10 * acc + ((of_char c :: nat) - 48)) 0 s"

text \<open>A non-empty run of ASCII digits, read as a decimal number.\<close>

definition parse_digits :: "string \<Rightarrow> nat option" where
  "parse_digits s = (if s \<noteq> [] \<and> list_all is_digit s then Some (digits_value s) else None)"

text \<open>
  \<open>int(s)\<close> on a string of code points below 256: surrounding whitespace is stripped, one
  sign is allowed, and single underscores may separate digit groups. Anything else raises
  \<open>ValueError\<close>. (The limit recent interpreters put on the number of digits is left out.)
\<close>

definition is_space :: "char \<Rightarrow> bool" where
  "is_space c = (let n = (of_char c :: nat) in
     (9 \<le> n \<and> n \<le> 13) \<or> (28 \<le> n \<and> n \<le> 32) \<or> n = 133 \<or> n = 160)"

definition py_strip :: "string \<Rightarrow> string" where
  "py_strip s = rev (dropWhile is_space (rev (dropWhile is_space s)))"

fun split_on :: "char \<Rightarrow> string \<Rightarrow> string list" where
  "split_on sep [] = [[]]"
| "split_on sep (c # cs) =
     (if c = sep then [] # split_on sep cs
      else (case split_on sep cs of [] \<Rightarrow> [[c]] | g # gs \<Rightarrow> (c # g) # gs))"

definition py_int_of_str :: "string \<Rightarrow> py_exc + int" where
  "py_int_of_str s =
     (let t = py_strip s;
          neg = (t \<noteq> [] \<and> hd t = CHR ''-'');
          body = (if t \<noteq> [] \<and> (hd t = CHR ''-'' \<or> hd t = CHR ''+'') then tl t else t);
          groups = split_on (CHR ''_'') body
      in if list_all (\<lambda>g. g \<noteq> [] \<and> list_all is_digit g) groups
         then Inr ((if neg then -1 else 1) * int (digits_value (concat groups)))
         else Inl (ValueError (''invalid literal for int() with base 10: '' @ repr_str s)))"

text \<open>
  The value of \<open>n / 2 ** k\<close> for a Python \<open>int\<close> \<open>n\<close>: a double, kept as the exact
  rational \<open>a / 2 ^ k\<close> it denotes. True division of integers is correctly rounded, so
  the magnitude of \<open>n\<close> is rounded to 53 significant bits, ties to even, and a result of
  \<open>2 ^ 1024\<close> or more raises \<open>OverflowError\<close>.
\<close>

datatype pyfloat = PyFloat int nat

fun bit_length :: "nat \<Rightarrow> nat" where
  "bit_length n = (if n = 0 then 0 else Suc (bit_length (n div 2)))"

declare bit_length.simps [simp del]

definition round_half_even_div :: "nat \<Rightarrow> nat \<Rightarrow> nat" where
  "round_half_even_div a b =
     (let q = a div b; r = a mod b
      in if b < 2 * r \<or> (2 * r = b \<and> odd q) then q + 1 else q)"

definition int_truediv_pow2 :: "int \<Rightarrow> nat \<Rightarrow> py_exc + pyfloat" where
  "int_truediv_pow2 n k =
     (let a = nat \<bar>n\<bar>;
          s = bit_length a - 53;
          m = round_half_even_div a (2 ^ s) * 2 ^ s
      in if 1024 + k < bit_length m
         then Inl (OverflowError ''integer division result too large for a float'')
         else Inr (PyFloat (if n < 0 then - int m else int m) k))"

text \<open>\<open>v / (1024 ** j)\<close> with \<open>2 ^ k = 1024 ^ j\<close>: a \<open>bool\<close> divides as the integer it is.\<close>

definition py_truediv_pow2 :: "json \<Rightarrow> nat \<Rightarrow> py_exc + pyfloat" where
  "py_truediv_pow2 v k = (case v of
       JInt n \<Rightarrow> int_truediv_pow2 n k
     | JBool b \<Rightarrow> int_truediv_pow2 (if b then 1 else 0) k
     | _ \<Rightarrow> Inl (TypeError (''unsupported operand type(s) for /: '' @ squote (py_type_name v)
                             @ '' and '' @ squote ''int'')))"

text \<open>
  The format spec \<open>.2f\<close>: the exact value of the double, rounded to hundredths with ties
  to even, printed with its sign, its integer part and two decimals.
\<close>

definition hundredths :: "pyfloat \<Rightarrow> nat" where
  "hundredths x = (case x of PyFloat a k \<Rightarrow> round_half_even_div (nat \<bar>a\<bar> * 100) (2 ^ k))"

definition format_2f :: "pyfloat \<Rightarrow> string" where
  "format_2f x = (case x of PyFloat a k \<Rightarrow>
     (if a < 0 then ''-'' else []) @ show_nat (hundredths x div 100) @ ''.''
       @ zpad 2 (hundredths x mod 100))"

text \<open>The format spec \<open>02d\<close>, defined on \<open>int\<close> and \<open>bool\<close> only.\<close>

definition format_02d_int :: "int \<Rightarrow> string" where
  "format_02d_int i = (if i < 0 then ''-'' @ show_nat (nat (- i)) else zpad 2 (nat i))"

definition py_format_02d :: "json \<Rightarrow> py_exc + string" where
  "py_format_02d v = (case v of
       JInt i \<Rightarrow> Inr (format_02d_int i)
     | JBool b \<Rightarrow> Inr (format_02d_int (if b then 1 else 0))
     | JStr _ \<Rightarrow> Inl (ValueError (''Unknown format code '' @ squote ''d''
                                    @ '' for object of type '' @ squote ''str''))
     | _ \<Rightarrow> Inl (TypeError (''unsupported format string passed to '' @ py_type_name v
                             @ ''.__format__'')))"

section \<open>Dates and times\<close>

text \<open>
  A \<open>datetime\<close> is its wall-clock reading, counted in microseconds from
  0001-01-01T00:00:00, and its UTC offset in microseconds when it is aware
  (\<open>None\<close> for a naive one). The representable readings are \<open>0 \<le> t < max_us\<close>.
\<close>

datatype pydatetime = DateTime int "int option"

definition us_per_day :: int where
  "us_per_day = 86400000000"

definition max_us :: int where
  "max_us = 3652059 * us_per_day"

definition is_leap :: "int \<Rightarrow> bool" where
  "is_leap y = (if y mod 100 = 0 then y mod 400 = 0 else y mod 4 = 0)"

definition days_in_month :: "int \<Rightarrow> nat \<Rightarrow> int" where
  "days_in_month y m =
     (if m = 2 \<and> is_leap y then 29 else [31, 28, 31, 30, 31, 30, 31, 31, 30, 31, 30, 31] ! (m - 1))"

definition days_before_month :: "int \<Rightarrow> nat \<Rightarrow> int" where
  "days_before_month y m = sum_list (map (days_in_month y) [1 ..< m])"

definition days_before_year :: "int \<Rightarrow> int" where
  "days_before_year y = (y - 1) * 365 + (y - 1) div 4 - (y - 1) div 100 + (y - 1) div 400"

text \<open>Days from 0001-01-01 to the given date, which is day 0.\<close>

definition ymd2days :: "int \<Rightarrow> nat \<Rightarrow> int \<Rightarrow> int" where
  "ymd2days y m d = days_before_year y + days_before_month y m + d - 1"

text \<open>The inverse, by the library's division into 400, 100, 4 and 1 year cycles.\<close>

definition days2ymd :: "int \<Rightarrow> int \<times> nat \<times> int" where
  "days2ymd n0 =
     (let n400 = n0 div 146097; n = n0 mod 146097;
          n100 = n div 36524; n' = n mod 36524;
          n4 = n' div 1461; n'' = n' mod 1461;
          n1 = n'' div 365; r = n'' mod 365;
          year = n400 * 400 + 1 + n100 * 100 + n4 * 4 + n1
      in if n1 = 4 \<or> n100 = 4 then (year - 1, 12, 31)
         else
           (let month = nat ((r + 50) div 32);
                preceding = days_before_month year month
            in if r < preceding
               then (year, month - 1, r - days_before_month year (month - 1) + 1)
               else (year, month, r - preceding + 1)))"

text \<open>\<open>timedelta(days=days)\<close>, in microseconds: the day count must fit a C \<open>int\<close> and
  then have a magnitude of at most 999999999.\<close>

definition timedelta_days :: "json \<Rightarrow> py_exc + int" where
  "timedelta_days v =
     (let mk = (\<lambda>d. if d < - 2147483648 \<or> 2147483647 < d
                     then Inl (OverflowError ''Python int too large to convert to C int'')
                     else if 999999999 < \<bar>d\<bar>
                     then Inl (OverflowError (''days='' @ show_int d
                                              @ ''; must have magnitude <= 999999999''))
                     else Inr (d * us_per_day))
      in case v of
           JInt d \<Rightarrow> mk d
         | JBool b \<Rightarrow> mk (if b then 1 else 0)
         | _ \<Rightarrow> Inl (TypeError (''unsupported type for timedelta days component: ''
                                 @ py_type_name v)))"

text \<open>\<open>now + delta\<close> on a naive \<open>datetime\<close>; \<open>now - delta\<close> adds the negated delta.\<close>

definition datetime_add :: "int \<Rightarrow> int \<Rightarrow> py_exc + int" where
  "datetime_add t delta =
     (if t + delta < 0 \<or> max_us \<le> t + delta then Inl (OverflowError ''date value out of range'')
      else Inr (t + delta))"

text \<open>\<open>a > b\<close> on datetimes: a naive and an aware one do not compare.\<close>

definition datetime_gt :: "pydatetime \<Rightarrow> pydatetime \<Rightarrow> py_exc + bool" where
  "datetime_gt a b = (case (a, b) of
       (DateTime t None, DateTime u None) \<Rightarrow> Inr (u < t)
     | (DateTime t (Some o1), DateTime u (Some o2)) \<Rightarrow> Inr (u - o2 < t - o1)
     | _ \<Rightarrow> Inl (TypeError ''can't compare offset-naive and offset-aware datetimes''))"

text \<open>\<open>isoformat()\<close> of a naive \<open>datetime\<close>.\<close>

definition isoformat :: "int \<Rightarrow> string" where
  "isoformat t =
     (let ymd = days2ymd (t div us_per_day);
          rest = nat (t mod us_per_day);
          secs = rest div 1000000; us = rest mod 1000000
      in zpad 4 (nat (fst ymd)) @ ''-'' @ zpad 2 (fst (snd ymd)) @ ''-''
           @ zpad 2 (nat (snd (snd ymd))) @ ''T'' @ zpad 2 (secs div 3600) @ '':''
           @ zpad 2 (secs div 60 mod 60) @ '':'' @ zpad 2 (secs mod 60)
           @ (if us = 0 then [] else ''.'' @ zpad 6 us))"

text \<open>
  \<open>datetime.fromisoformat\<close>, for the grammar the library documents:
  \<open>YYYY-MM-DD[*HH[:MM[:SS[.fff[fff]]]][+HH:MM[:SS[.ffffff]]]]\<close>, where \<open>*\<close> is any one
  character. A string with an offset gives an aware \<open>datetime\<close>. Strings outside the
  grammar raise \<open>ValueError\<close> here; recent interpreters read some further ISO-8601
  forms.
\<close>

definition parse_hms :: "string \<Rightarrow> (nat \<times> nat \<times> nat \<times> nat) option" where
  "parse_hms t =
     (let f = (\<lambda>i. parse_digits (take 2 (drop i t)));
          n = length t;
          c2 = (2 < n \<and> t ! 2 = CHR '':'');
          c5 = (5 < n \<and> t ! 5 = CHR '':'')
      in if n = 2 then map_option (\<lambda>h. (h, 0, 0, 0)) (f 0)
         else if n = 5 \<and> c2
           then (case (f 0, f 3) of (Some h, Some m) \<Rightarrow> Some (h, m, 0, 0) | _ \<Rightarrow> None)
         else if n = 8 \<and> c2 \<and> c5
           then (case (f 0, f 3, f 6) of
                   (Some h, Some m, Some s) \<Rightarrow> Some (h, m, s, 0) | _ \<Rightarrow> None)
         else if (n = 12 \<or> n = 15) \<and> c2 \<and> c5 \<and> t ! 8 = CHR ''.''
           then (case (f 0, f 3, f 6, parse_digits (drop 9 t)) of
                   (Some h, Some m, Some s, Some u) \<Rightarrow>
                      Some (h, m, s, if n = 12 then u * 1000 else u)
                 | _ \<Rightarrow> None)
         else None)"

definition is_sign :: "char \<Rightarrow> bool" where
  "is_sign c = (c = CHR ''+'' \<or> c = CHR ''-'')"

definition parse_time :: "string \<Rightarrow> ((nat \<times> nat \<times> nat \<times> nat) \<times> int option) option" where
  "parse_time tstr =
     (let hms_str = takeWhile (\<lambda>c. \<not> is_sign c) tstr;
          tz_str = dropWhile (\<lambda>c. \<not> is_sign c) tstr
      in case parse_hms hms_str of
           None \<Rightarrow> None
         | Some hms \<Rightarrow>
             if tz_str = [] then Some (hms, None)
             else if length tz_str = 6 \<or> length tz_str = 9 \<or> length tz_str = 16
               then (case parse_hms (tl tz_str) of
                       None \<Rightarrow> None
                     | Some (h, m, s, u) \<Rightarrow>
                         Some (hms, Some ((if hd tz_str = CHR ''-'' then -1 else 1)
                                 * (int (h * 3600 + m * 60 + s) * 1000000 + int u))))
             else None)"

text \<open>\<open>repr\<close> of a \<open>timedelta\<close> of the given number of microseconds.\<close>

definition repr_timedelta :: "int \<Rightarrow> string" where
  "repr_timedelta us =
     (let d = us div us_per_day; r = us mod us_per_day;
          s = r div 1000000; u = r mod 1000000;
          args = (if d = 0 then [] else [''days='' @ show_int d])
               @ (if s = 0 then [] else [''seconds='' @ show_int s])
               @ (if u = 0 then [] else [''microseconds='' @ show_int u])
      in ''datetime.timedelta('' @ (if args = [] then ''0'' else join_with '', '' args) @ '')'')"

text \<open>The constructor's range checks: the offset first, then the date, then the time.\<close>

definition new_datetime ::
  "nat \<Rightarrow> nat \<Rightarrow> nat \<Rightarrow> nat \<Rightarrow> nat \<Rightarrow> nat \<Rightarrow> nat \<Rightarrow> int option \<Rightarrow> py_exc + pydatetime" where
  "new_datetime y mo d h mi s us tz =
     (if (case tz of None \<Rightarrow> False | Some off \<Rightarrow> us_per_day \<le> \<bar>off\<bar>)
        then Inl (ValueError (''offset must be a timedelta strictly between ''
               @ ''-timedelta(hours=24) and timedelta(hours=24), not ''
               @ repr_timedelta (the tz) @ ''.''))
      else if y < 1 \<or> 9999 < y
        then Inl (ValueError (''year '' @ show_nat y @ '' is out of range''))
      else if mo < 1 \<or> 12 < mo then Inl (ValueError ''month must be in 1..12'')
      else if d < 1 \<or> days_in_month (int y) mo < int d
        then Inl (ValueError ''day is out of range for month'')
      else if 23 < h then Inl (ValueError ''hour must be in 0..23'')
      else if 59 < mi then Inl (ValueError ''minute must be in 0..59'')
      else if 59 < s then Inl (ValueError ''second must be in 0..59'')
      else Inr (DateTime
             ((ymd2days (int y) mo (int d) * 86400 + int (h * 3600 + mi * 60 + s)) * 1000000 + int us)
             tz))"

definition fromisoformat :: "string \<Rightarrow> py_exc + pydatetime" where
  "fromisoformat s =
     (let invalid = Inl (ValueError (''Invalid isoformat string: '' @ repr_str s))
      in if 10 \<le> length s \<and> s ! 4 = CHR ''-'' \<and> s ! 7 = CHR ''-''
         then (case (parse_digits (take 4 s), parse_digits (take 2 (drop 5 s)),
                     parse_digits (take 2 (drop 8 s))) of
                 (Some y, Some mo, Some d) \<Rightarrow>
                   (case (if length s = 10 then Some ((0, 0, 0, 0), None)
                          else parse_time (drop 11 s)) of
                      None \<Rightarrow> invalid
                    | Some ((h, mi, sec, us), tz) \<Rightarrow> new_datetime y mo d h mi sec us tz)
               | _ \<Rightarrow> invalid)
         else invalid)"

section \<open>The typed HTTP client\<close>

text \<open>
  The remote side is a function from the request sent to what comes back: no response at
  all (connection failure or timeout, with the text of the \<open>httpx\<close> error), or a status
  code and a body. A body is a JSON document or a text that is no JSON document (the empty
  body included); the latter carries the message of the decoder's error. Every operation
  returns, next to its result, the list of requests it sent, in order.
\<close>

datatype http_method = GET | POST

record request =
  req_method :: http_method
  req_url :: string
  req_headers :: "(string \<times> string) list"
  req_params :: "(string \<times> string) list option"
  req_json :: "json option"

datatype body = JsonBody json | NotJson string

datatype http_outcome = NoResponse string | Response nat body

type_synonym remote = "request \<Rightarrow> http_outcome"

type_synonym 'a io = "(py_exc + 'a) \<times> request list"

definition bind_io :: "'a io \<Rightarrow> ('a \<Rightarrow> 'b io) \<Rightarrow> 'b io" where
  "bind_io m f = (case m of
       (Inl e, tr) \<Rightarrow> (Inl e, tr)
     | (Inr x, tr) \<Rightarrow> (case f x of (r, tr') \<Rightarrow> (r, tr @ tr')))"

definition lift_io :: "(py_exc + 'a) \<Rightarrow> 'a io" where
  "lift_io r = (r, [])"

record api_client =
  base_url :: string
  api_key :: string
  timeout :: int

text \<open>\<open>raise_for_status\<close>, \<open>response.json()\<close> and the two \<open>except\<close> clauses: a status
  outside 2xx becomes the plain exception with the status code, everything else is
  re-raised as it is.\<close>

definition handle_outcome :: "http_outcome \<Rightarrow> py_exc + json" where
  "handle_outcome out = (case out of
       NoResponse m \<Rightarrow> Inl (TransportError m)
     | Response st b \<Rightarrow>
         if 200 \<le> st \<and> st < 300
         then (case b of JsonBody j \<Rightarrow> Inr j | NotJson m \<Rightarrow> Inl (JSONDecodeError m))
         else Inl (PyException (''API request failed: '' @ show_nat st)))"

definition api_get ::
  "api_client \<Rightarrow> remote \<Rightarrow> string \<Rightarrow> (string \<times> string) list option \<Rightarrow> json io" where
  "api_get c remote endpoint params =
     (let req = \<lparr> req_method = GET, req_url = base_url c @ ''/api/v3/'' @ endpoint,
                   req_headers = [(''X-Api-Key'', api_key c)], req_params = params,
                   req_json = None \<rparr>
      in (handle_outcome (remote req), [req]))"

definition api_post :: "api_client \<Rightarrow> remote \<Rightarrow> string \<Rightarrow> json \<Rightarrow> json io" where
  "api_post c remote endpoint json_data =
     (let req = \<lparr> req_method = POST, req_url = base_url c @ ''/api/v3/'' @ endpoint,
                   req_headers = [(''X-Api-Key'', api_key c)], req_params = None,
                   req_json = Some json_data \<rparr>
      in (handle_outcome (remote req), [req]))"

section \<open>Configuration and the server object\<close>

record config =
  sonarr_url :: string
  sonarr_api_key :: string
  radarr_url :: string
  radarr_api_key :: string
  request_timeout :: int

definition validate_service :: "config \<Rightarrow> string \<Rightarrow> bool" where
  "validate_service cfg service =
     (if service = ''sonarr'' then sonarr_url cfg \<noteq> [] \<and> sonarr_api_key cfg \<noteq> []
      else if service = ''radarr'' then radarr_url cfg \<noteq> [] \<and> radarr_api_key cfg \<noteq> []
      else False)"

record mcp =
  mcp_config :: config
  sonarr_client :: "api_client option"
  radarr_client :: "api_client option"

text \<open>\<open>SonarrRadarrMCP.__init__\<close>: a client is built for a service only when it validates.\<close>

definition init_mcp :: "config \<Rightarrow> mcp" where
  "init_mcp cfg =
     \<lparr> mcp_config = cfg,
       sonarr_client =
         (if validate_service cfg ''sonarr''
          then Some \<lparr> base_url = sonarr_url cfg, api_key = sonarr_api_key cfg,
                      timeout = request_timeout cfg \<rparr>
          else None),
       radarr_client =
         (if validate_service cfg ''radarr''
          then Some \<lparr> base_url = radarr_url cfg, api_key = radarr_api_key cfg,
                      timeout = request_timeout cfg \<rparr>
          else None) \<rparr>"

text \<open>\<open>self.sonarr_client.get(...)\<close> and \<open>.post(...)\<close>: without a client the attribute
  lookup on \<open>None\<close> raises and nothing is sent.\<close>

definition client_get ::
  "api_client option \<Rightarrow> remote \<Rightarrow> string \<Rightarrow> (string \<times> string) list option \<Rightarrow> json io" where
  "client_get c remote endpoint params = (case c of
       None \<Rightarrow> lift_io (Inl (no_attribute JNull ''get''))
     | Some cl \<Rightarrow> api_get cl remote endpoint params)"

definition client_post :: "api_client option \<Rightarrow> remote \<Rightarrow> string \<Rightarrow> json \<Rightarrow> json io" where
  "client_post c remote endpoint json_data = (case c of
       None \<Rightarrow> lift_io (Inl (no_attribute JNull ''post''))
     | Some cl \<Rightarrow> api_post cl remote endpoint json_data)"

section \<open>The service facade\<close>

text \<open>
  Each method takes the server object, the remote side and, where it reads the clock, the
  reading \<open>now\<close> of \<open>datetime.now()\<close> (naive local time). Arguments are passed as the
  Python values the callers hand over, so \<open>days\<close> and the ids are \<open>json\<close> values.
\<close>

subsection \<open>Recently added series and movies\<close>

text \<open>One round of the filtering loop of \<open>get_recent_series\<close>.\<close>

definition recent_series_step :: "int \<Rightarrow> json list \<Rightarrow> json \<Rightarrow> py_exc + json list" where
  "recent_series_step cutoff_date recent show' =
     bindE (py_getitem show' ''added'') (\<lambda>a.
     bindE (py_replace_Z a) (\<lambda>s.
     bindE (fromisoformat s) (\<lambda>added.
     bindE (datetime_gt added (DateTime cutoff_date None)) (\<lambda>keep.
       if keep then
         bindE (py_getitem show' ''title'') (\<lambda>title.
         bindE (py_get show' ''year'' JNull) (\<lambda>year.
         bindE (py_getitem show' ''added'') (\<lambda>added_str.
         bindE (py_getitem show' ''status'') (\<lambda>status.
         bindE (py_get show' ''network'' JNull) (\<lambda>network.
         bindE (py_get show' ''seasonCount'' (JInt 0)) (\<lambda>seasons.
           Inr (recent @ [JObj [(''title'', title), (''year'', year), (''added'', added_str),
                                (''status'', status), (''network'', network),
                                (''seasons'', seasons)]])))))))
       else Inr recent))))"

text \<open>The sort key \<open>x["added"]\<close>; every kept entry holds a string there.\<close>

definition added_key :: "json \<Rightarrow> string" where
  "added_key x = (case py_getitem x ''added'' of Inr (JStr s) \<Rightarrow> s | _ \<Rightarrow> [])"

text \<open>\<open>xs.sort(key=..., reverse=True)\<close>: descending, and stable, so entries with equal
  keys keep their order.\<close>

definition sort_reverse :: "('a \<Rightarrow> string) \<Rightarrow> 'a list \<Rightarrow> 'a list" where
  "sort_reverse key xs = rev (sort_key key (rev xs))"

definition render_recent_series :: "string \<Rightarrow> json \<Rightarrow> py_exc + string" where
  "render_recent_series result show' =
     bindE (py_getitem show' ''title'') (\<lambda>title.
     bindE (py_getitem show' ''year'') (\<lambda>year.
     bindE (py_getitem show' ''added'') (\<lambda>added.
     bindE (py_get show' ''network'' (JStr ''Unknown'')) (\<lambda>network.
     bindE (py_getitem show' ''seasons'') (\<lambda>seasons.
       Inr (result @ ''- '' @ py_str title @ '' ('' @ py_str year @ '')\<newline>''
              @ ''  Added: '' @ py_str added @ ''\<newline>''
              @ ''  Network: '' @ py_str network @ ''\<newline>''
              @ ''  Seasons: '' @ py_str seasons @ ''\<newline>\<newline>''))))))"

definition recent_series_text :: "int \<Rightarrow> json \<Rightarrow> json \<Rightarrow> py_exc + string" where
  "recent_series_text now days series =
     bindE (timedelta_days days) (\<lambda>delta.
     bindE (datetime_add now (- delta)) (\<lambda>cutoff_date.
     bindE (py_iter series) (\<lambda>shows.
     bindE (for_each (recent_series_step cutoff_date) [] shows) (\<lambda>kept.
       (let recent = sort_reverse added_key kept
        in if recent = [] then Inr (''No series added in the last '' @ py_str days @ '' days.'')
           else for_each render_recent_series
                  (''Recently added series (last '' @ py_str days @ '' days):\<newline>\<newline>'')
                  recent)))))"

definition get_recent_series :: "mcp \<Rightarrow> remote \<Rightarrow> int \<Rightarrow> json \<Rightarrow> string io" where
  "get_recent_series self remote now days =
     bind_io (client_get (sonarr_client self) remote ''series'' None) (\<lambda>series.
       lift_io (recent_series_text now days series))"

definition recent_movies_step :: "int \<Rightarrow> json list \<Rightarrow> json \<Rightarrow> py_exc + json list" where
  "recent_movies_step cutoff_date recent movie =
     bindE (py_getitem movie ''added'') (\<lambda>a.
     bindE (py_replace_Z a) (\<lambda>s.
     bindE (fromisoformat s) (\<lambda>added.
     bindE (datetime_gt added (DateTime cutoff_date None)) (\<lambda>keep.
       if keep then
         bindE (py_getitem movie ''title'') (\<lambda>title.
         bindE (py_get movie ''year'' JNull) (\<lambda>year.
         bindE (py_getitem movie ''added'') (\<lambda>added_str.
         bindE (py_getitem movie ''status'') (\<lambda>status.
         bindE (py_get movie ''studio'' JNull) (\<lambda>studio.
           Inr (recent @ [JObj [(''title'', title), (''year'', year), (''added'', added_str),
                                (''status'', status), (''studio'', studio)]]))))))
       else Inr recent))))"

definition render_recent_movie :: "string \<Rightarrow> json \<Rightarrow> py_exc + string" where
  "render_recent_movie result movie =
     bindE (py_getitem movie ''title'') (\<lambda>title.
     bindE (py_getitem movie ''year'') (\<lambda>year.
     bindE (py_getitem movie ''added'') (\<lambda>added.
     bindE (py_get movie ''studio'' (JStr ''Unknown'')) (\<lambda>studio.
       Inr (result @ ''- '' @ py_str title @ '' ('' @ py_str year @ '')\<newline>''
              @ ''  Added: '' @ py_str added @ ''\<newline>''
              @ ''  Studio: '' @ py_str studio @ ''\<newline>\<newline>'')))))"

definition recent_movies_text :: "int \<Rightarrow> json \<Rightarrow> json \<Rightarrow> py_exc + string" where
  "recent_movies_text now days movies =
     bindE (timedelta_days days) (\<lambda>delta.
     bindE (datetime_add now (- delta)) (\<lambda>cutoff_date.
     bindE (py_iter movies) (\<lambda>ms.
     bindE (for_each (recent_movies_step cutoff_date) [] ms) (\<lambda>kept.
       (let recent = sort_reverse added_key kept
        in if recent = [] then Inr (''No movies added in the last '' @ py_str days @ '' days.'')
           else for_each render_recent_movie
                  (''Recently added movies (last '' @ py_str days @ '' days):\<newline>\<newline>'')
                  recent)))))"

definition get_recent_movies :: "mcp \<Rightarrow> remote \<Rightarrow> int \<Rightarrow> json \<Rightarrow> string io" where
  "get_recent_movies self remote now days =
     bind_io (client_get (radarr_client self) remote ''movie'' None) (\<lambda>movies.
       lift_io (recent_movies_text now days movies))"

subsection \<open>Calendar\<close>

text \<open>The window is computed before the request is sent, so a bad \<open>days\<close> raises with
  nothing sent.\<close>

definition calendar_params :: "int \<Rightarrow> json \<Rightarrow> py_exc + (string \<times> string) list" where
  "calendar_params now days =
     bindE (timedelta_days days) (\<lambda>delta.
     bindE (datetime_add now delta) (\<lambda>end'.
       Inr [(''start'', isoformat now), (''end'', isoformat end')]))"

definition render_episode :: "string \<Rightarrow> json \<Rightarrow> py_exc + string" where
  "render_episode result episode =
     bindE (py_get episode ''airDateUtc'' (JStr ''Unknown'')) (\<lambda>air_date.
     bindE (py_getitem episode ''series'') (\<lambda>series.
     bindE (py_getitem series ''title'') (\<lambda>series_title.
     bindE (py_getitem episode ''seasonNumber'') (\<lambda>sn.
     bindE (py_format_02d sn) (\<lambda>season.
     bindE (py_getitem episode ''episodeNumber'') (\<lambda>en.
     bindE (py_format_02d en) (\<lambda>number.
     bindE (py_get episode ''title'' (JStr ''TBA'')) (\<lambda>title.
       Inr (result @ ''- '' @ py_str series_title @ '' - S'' @ season @ ''E'' @ number
              @ ''\<newline>''
              @ ''  Title: '' @ py_str title @ ''\<newline>''
              @ ''  Airs: '' @ py_str air_date @ ''\<newline>\<newline>'')))))))))"

definition sonarr_calendar_text :: "json \<Rightarrow> json \<Rightarrow> py_exc + string" where
  "sonarr_calendar_text days calendar =
     (if \<not> py_truthy calendar
      then Inr (''No episodes airing in the next '' @ py_str days @ '' days.'')
      else bindE (py_iter calendar) (\<lambda>episodes.
             for_each render_episode
               (''Upcoming episodes (next '' @ py_str days @ '' days):\<newline>\<newline>'')
               episodes))"

definition get_sonarr_calendar :: "mcp \<Rightarrow> remote \<Rightarrow> int \<Rightarrow> json \<Rightarrow> string io" where
  "get_sonarr_calendar self remote now days =
     bind_io (lift_io (calendar_params now days)) (\<lambda>params.
     bind_io (client_get (sonarr_client self) remote ''calendar'' (Some params)) (\<lambda>calendar.
       lift_io (sonarr_calendar_text days calendar)))"

definition render_release :: "string \<Rightarrow> json \<Rightarrow> py_exc + string" where
  "render_release result movie =
     bindE (py_getitem movie ''title'') (\<lambda>title.
     bindE (py_get movie ''year'' (JStr ''N/A'')) (\<lambda>year.
     bindE (py_get movie ''inCinemas'' (JStr ''TBA'')) (\<lambda>release.
     bindE (py_getitem movie ''status'') (\<lambda>status.
       Inr (result @ ''- '' @ py_str title @ '' ('' @ py_str year @ '')\<newline>''
              @ ''  Release: '' @ py_str release @ ''\<newline>''
              @ ''  Status: '' @ py_str status @ ''\<newline>\<newline>'')))))"

definition radarr_calendar_text :: "json \<Rightarrow> json \<Rightarrow> py_exc + string" where
  "radarr_calendar_text days calendar =
     (if \<not> py_truthy calendar
      then Inr (''No movies releasing in the next '' @ py_str days @ '' days.'')
      else bindE (py_iter calendar) (\<lambda>movies.
             for_each render_release
               (''Upcoming movie releases (next '' @ py_str days @ '' days):\<newline>\<newline>'')
               movies))"

definition get_radarr_calendar :: "mcp \<Rightarrow> remote \<Rightarrow> int \<Rightarrow> json \<Rightarrow> string io" where
  "get_radarr_calendar self remote now days =
     bind_io (lift_io (calendar_params now days)) (\<lambda>params.
     bind_io (client_get (radarr_client self) remote ''calendar'' (Some params)) (\<lambda>calendar.
       lift_io (radarr_calendar_text days calendar)))"

subsection \<open>Search\<close>

text \<open>One round of the comprehension
  \<open>[s for s in series if query.lower() in s["title"].lower()]\<close>.\<close>

definition match_step :: "json \<Rightarrow> json list \<Rightarrow> json \<Rightarrow> py_exc + json list" where
  "match_step query matches s =
     bindE (py_lower query) (\<lambda>q.
     bindE (py_getitem s ''title'') (\<lambda>title.
     bindE (py_lower title) (\<lambda>t.
       Inr (if py_contains q t then matches @ [s] else matches))))"

definition render_series_match :: "string \<Rightarrow> json \<Rightarrow> py_exc + string" where
  "render_series_match result show' =
     bindE (py_getitem show' ''title'') (\<lambda>title.
     bindE (py_get show' ''year'' (JStr ''N/A'')) (\<lambda>year.
     bindE (py_getitem show' ''status'') (\<lambda>status.
     bindE (py_get show' ''seasonCount'' (JInt 0)) (\<lambda>seasons.
     bindE (py_getitem show' ''id'') (\<lambda>ident.
       Inr (result @ ''- '' @ py_str title @ '' ('' @ py_str year @ '')\<newline>''
              @ ''  Status: '' @ py_str status @ ''\<newline>''
              @ ''  Seasons: '' @ py_str seasons @ ''\<newline>''
              @ ''  ID: '' @ py_str ident @ ''\<newline>\<newline>''))))))"

definition search_series_text :: "json \<Rightarrow> json \<Rightarrow> py_exc + string" where
  "search_series_text query series =
     bindE (py_iter series) (\<lambda>shows.
     bindE (for_each (match_step query) [] shows) (\<lambda>matches.
       if matches = [] then Inr (''No series found matching '' @ squote (py_str query) @ ''.'')
       else for_each render_series_match
              (''Series matching '' @ squote (py_str query) @ '':\<newline>\<newline>'')
              (take 10 matches)))"

definition search_sonarr_series :: "mcp \<Rightarrow> remote \<Rightarrow> json \<Rightarrow> string io" where
  "search_sonarr_series self remote query =
     bind_io (client_get (sonarr_client self) remote ''series'' None) (\<lambda>series.
       lift_io (search_series_text query series))"

definition render_movie_match :: "string \<Rightarrow> json \<Rightarrow> py_exc + string" where
  "render_movie_match result movie =
     bindE (py_getitem movie ''title'') (\<lambda>title.
     bindE (py_get movie ''year'' (JStr ''N/A'')) (\<lambda>year.
     bindE (py_getitem movie ''status'') (\<lambda>status.
     bindE (py_getitem movie ''id'') (\<lambda>ident.
       Inr (result @ ''- '' @ py_str title @ '' ('' @ py_str year @ '')\<newline>''
              @ ''  Status: '' @ py_str status @ ''\<newline>''
              @ ''  ID: '' @ py_str ident @ ''\<newline>\<newline>'')))))"

definition search_movies_text :: "json \<Rightarrow> json \<Rightarrow> py_exc + string" where
  "search_movies_text query movies =
     bindE (py_iter movies) (\<lambda>ms.
     bindE (for_each (match_step query) [] ms) (\<lambda>matches.
       if matches = [] then Inr (''No movies found matching '' @ squote (py_str query) @ ''.'')
       else for_each render_movie_match
              (''Movies matching '' @ squote (py_str query) @ '':\<newline>\<newline>'')
              (take 10 matches)))"

definition search_radarr_movies :: "mcp \<Rightarrow> remote \<Rightarrow> json \<Rightarrow> string io" where
  "search_radarr_movies self remote query =
     bind_io (client_get (radarr_client self) remote ''movie'' None) (\<lambda>movies.
       lift_io (search_movies_text query movies))"

subsection \<open>System status\<close>

definition render_disk :: "string \<Rightarrow> json \<Rightarrow> py_exc + string" where
  "render_disk result disk =
     bindE (py_getitem disk ''freeSpace'') (\<lambda>free.
     bindE (py_truediv_pow2 free 30) (\<lambda>free_gb.
     bindE (py_getitem disk ''totalSpace'') (\<lambda>total.
     bindE (py_truediv_pow2 total 30) (\<lambda>total_gb.
     bindE (py_getitem disk ''path'') (\<lambda>path.
       Inr (result @ ''- '' @ py_str path @ '': '' @ format_2f free_gb @ '' GB free of ''
              @ format_2f total_gb @ '' GB\<newline>''))))))"

definition status_text :: "string \<Rightarrow> json \<Rightarrow> json \<Rightarrow> py_exc + string" where
  "status_text name status disk_space =
     bindE (py_getitem status ''version'') (\<lambda>version.
     bindE (py_get status ''osName'' (JStr ''Unknown'')) (\<lambda>os_name.
     bindE (py_get status ''runtimeName'' (JStr ''Unknown'')) (\<lambda>runtime.
     bindE (py_iter disk_space) (\<lambda>disks.
       for_each render_disk
         (name @ '' System Status:\<newline>\<newline>''
            @ ''Version: '' @ py_str version @ ''\<newline>''
            @ ''OS: '' @ py_str os_name @ ''\<newline>''
            @ ''Runtime: '' @ py_str runtime @ ''\<newline>\<newline>''
            @ ''Disk Space:\<newline>'')
         disks))))"

definition get_sonarr_status :: "mcp \<Rightarrow> remote \<Rightarrow> string io" where
  "get_sonarr_status self remote =
     bind_io (client_get (sonarr_client self) remote ''system/status'' None) (\<lambda>status.
     bind_io (client_get (sonarr_client self) remote ''diskspace'' None) (\<lambda>disk_space.
       lift_io (status_text ''Sonarr'' status disk_space)))"

definition get_radarr_status :: "mcp \<Rightarrow> remote \<Rightarrow> string io" where
  "get_radarr_status self remote =
     bind_io (client_get (radarr_client self) remote ''system/status'' None) (\<lambda>status.
     bind_io (client_get (radarr_client self) remote ''diskspace'' None) (\<lambda>disk_space.
       lift_io (status_text ''Radarr'' status disk_space)))"

subsection \<open>Download queue\<close>

text \<open>The line \<open>Progress: {item.get('sizeleft', 0) / (1024**2):.2f} MB remaining\<close>.\<close>

definition progress_line :: "json \<Rightarrow> py_exc + string" where
  "progress_line item =
     bindE (py_get item ''sizeleft'' (JInt 0)) (\<lambda>sizeleft.
     bindE (py_truediv_pow2 sizeleft 20) (\<lambda>mb.
       Inr (''  Progress: '' @ format_2f mb @ '' MB remaining\<newline>\<newline>'')))"

definition render_sonarr_item :: "string \<Rightarrow> json \<Rightarrow> py_exc + string" where
  "render_sonarr_item result item =
     bindE (py_getitem item ''series'') (\<lambda>series.
     bindE (py_getitem series ''title'') (\<lambda>title.
     bindE (py_getitem item ''episode'') (\<lambda>episode.
     bindE (py_getitem episode ''seasonNumber'') (\<lambda>sn.
     bindE (py_format_02d sn) (\<lambda>season.
     bindE (py_getitem item ''episode'') (\<lambda>episode'.
     bindE (py_getitem episode' ''episodeNumber'') (\<lambda>en.
     bindE (py_format_02d en) (\<lambda>number.
     bindE (py_getitem item ''status'') (\<lambda>status.
     bindE (progress_line item) (\<lambda>progress.
       Inr (result @ ''- '' @ py_str title @ '' - S'' @ season @ ''E'' @ number @ ''\<newline>''
              @ ''  Status: '' @ py_str status @ ''\<newline>''
              @ progress)))))))))))"

definition render_radarr_item :: "string \<Rightarrow> json \<Rightarrow> py_exc + string" where
  "render_radarr_item result item =
     bindE (py_getitem item ''movie'') (\<lambda>movie.
     bindE (py_getitem movie ''title'') (\<lambda>title.
     bindE (py_getitem item ''movie'') (\<lambda>movie'.
     bindE (py_get movie' ''year'' (JStr ''N/A'')) (\<lambda>year.
     bindE (py_getitem item ''status'') (\<lambda>status.
     bindE (progress_line item) (\<lambda>progress.
       Inr (result @ ''- '' @ py_str title @ '' ('' @ py_str year @ '')\<newline>''
              @ ''  Status: '' @ py_str status @ ''\<newline>''
              @ progress)))))))"

definition queue_text :: "(string \<Rightarrow> json \<Rightarrow> py_exc + string) \<Rightarrow> json \<Rightarrow> py_exc + string" where
  "queue_text render_item queue =
     bindE (py_get queue ''records'' JNull) (\<lambda>records.
       if \<not> py_truthy records then Inr ''Download queue is empty.''
       else bindE (py_getitem queue ''records'') (\<lambda>records'.
            bindE (py_iter records') (\<lambda>items.
              for_each render_item ''Current Download Queue:\<newline>\<newline>'' items)))"

definition get_sonarr_queue :: "mcp \<Rightarrow> remote \<Rightarrow> string io" where
  "get_sonarr_queue self remote =
     bind_io (client_get (sonarr_client self) remote ''queue'' None) (\<lambda>queue.
       lift_io (queue_text render_sonarr_item queue))"

definition get_radarr_queue :: "mcp \<Rightarrow> remote \<Rightarrow> string io" where
  "get_radarr_queue self remote =
     bind_io (client_get (radarr_client self) remote ''queue'' None) (\<lambda>queue.
       lift_io (queue_text render_radarr_item queue))"

subsection \<open>Commands\<close>

definition refresh_sonarr_series :: "mcp \<Rightarrow> remote \<Rightarrow> json \<Rightarrow> string io" where
  "refresh_sonarr_series self remote series_id =
     bind_io (client_post (sonarr_client self) remote ''command''
                (JObj [(''name'', JStr ''RefreshSeries''), (''seriesId'', series_id)])) (\<lambda>_.
       lift_io (Inr (''Refresh triggered for series ID '' @ py_str series_id)))"

definition search_sonarr_episodes :: "mcp \<Rightarrow> remote \<Rightarrow> json \<Rightarrow> string io" where
  "search_sonarr_episodes self remote series_id =
     bind_io (client_post (sonarr_client self) remote ''command''
                (JObj [(''name'', JStr ''SeriesSearch''), (''seriesId'', series_id)])) (\<lambda>_.
       lift_io (Inr (''Episode search triggered for series ID '' @ py_str series_id)))"

definition refresh_radarr_movie :: "mcp \<Rightarrow> remote \<Rightarrow> json \<Rightarrow> string io" where
  "refresh_radarr_movie self remote movie_id =
     bind_io (client_post (radarr_client self) remote ''command''
                (JObj [(''name'', JStr ''RefreshMovie''), (''movieIds'', JArr [movie_id])])) (\<lambda>_.
       lift_io (Inr (''Refresh triggered for movie ID '' @ py_str movie_id)))"

definition search_radarr_movie :: "mcp \<Rightarrow> remote \<Rightarrow> json \<Rightarrow> string io" where
  "search_radarr_movie self remote movie_id =
     bind_io (client_post (radarr_client self) remote ''command''
                (JObj [(''name'', JStr ''MoviesSearch''), (''movieIds'', JArr [movie_id])])) (\<lambda>_.
       lift_io (Inr (''Search triggered for movie ID '' @ py_str movie_id)))"

section \<open>The tool-invocation handler\<close>

datatype text_content = TextContent string

text \<open>\<open>result = await ...; return [TextContent(type="text", text=result)]\<close>.\<close>

definition text_result :: "string io \<Rightarrow> text_content list io" where
  "text_result m = bind_io m (\<lambda>result. lift_io (Inr [TextContent result]))"

definition configured :: "api_client option \<Rightarrow> bool" where
  "configured c = (case c of None \<Rightarrow> False | Some _ \<Rightarrow> True)"

text \<open>
  The body of the \<open>try\<close> block of \<open>call_tool\<close>: the branches in the order of the source.
  An argument expression such as \<open>arguments["query"]\<close> is evaluated before the facade
  method is entered.
\<close>

definition call_tool_try :: "mcp \<Rightarrow> remote \<Rightarrow> int \<Rightarrow> string \<Rightarrow> json \<Rightarrow> text_content list io" where
  "call_tool_try self remote now name arguments =
     (let sonarr_missing = lift_io (Inr [TextContent ''Sonarr is not configured'']);
          radarr_missing = lift_io (Inr [TextContent ''Radarr is not configured''])
      in
      if name = ''sonarr_get_recent_series'' then
        (if \<not> configured (sonarr_client self) then sonarr_missing
         else bind_io (lift_io (py_get arguments ''days'' (JInt 7))) (\<lambda>days.
                text_result (get_recent_series self remote now days)))
      else if name = ''sonarr_get_calendar'' then
        (if \<not> configured (sonarr_client self) then sonarr_missing
         else bind_io (lift_io (py_get arguments ''days'' (JInt 7))) (\<lambda>days.
                text_result (get_sonarr_calendar self remote now days)))
      else if name = ''sonarr_search_series'' then
        (if \<not> configured (sonarr_client self) then sonarr_missing
         else bind_io (lift_io (py_getitem arguments ''query'')) (\<lambda>query.
                text_result (search_sonarr_series self remote query)))
      else if name = ''sonarr_get_system_status'' then
        (if \<not> configured (sonarr_client self) then sonarr_missing
         else text_result (get_sonarr_status self remote))
      else if name = ''sonarr_get_queue'' then
        (if \<not> configured (sonarr_client self) then sonarr_missing
         else text_result (get_sonarr_queue self remote))
      else if name = ''sonarr_refresh_series'' then
        (if \<not> configured (sonarr_client self) then sonarr_missing
         else bind_io (lift_io (py_getitem arguments ''series_id'')) (\<lambda>series_id.
                text_result (refresh_sonarr_series self remote series_id)))
      else if name = ''sonarr_search_episodes'' then
        (if \<not> configured (sonarr_client self) then sonarr_missing
         else bind_io (lift_io (py_getitem arguments ''series_id'')) (\<lambda>series_id.
                text_result (search_sonarr_episodes self remote series_id)))
      else if name = ''radarr_get_recent_movies'' then
        (if \<not> configured (radarr_client self) then radarr_missing
         else bind_io (lift_io (py_get arguments ''days'' (JInt 7))) (\<lambda>days.
                text_result (get_recent_movies self remote now days)))
      else if name = ''radarr_get_calendar'' then
        (if \<not> configured (radarr_client self) then radarr_missing
         else bind_io (lift_io (py_get arguments ''days'' (JInt 30))) (\<lambda>days.
                text_result (get_radarr_calendar self remote now days)))
      else if name = ''radarr_search_movies'' then
        (if \<not> configured (radarr_client self) then radarr_missing
         else bind_io (lift_io (py_getitem arguments ''query'')) (\<lambda>query.
                text_result (search_radarr_movies self remote query)))
      else if name = ''radarr_get_system_status'' then
        (if \<not> configured (radarr_client self) then radarr_missing
         else text_result (get_radarr_status self remote))
      else if name = ''radarr_get_queue'' then
        (if \<not> configured (radarr_client self) then radarr_missing
         else text_result (get_radarr_queue self remote))
      else if name = ''radarr_refresh_movie'' then
        (if \<not> configured (radarr_client self) then radarr_missing
         else bind_io (lift_io (py_getitem arguments ''movie_id'')) (\<lambda>movie_id.
                text_result (refresh_radarr_movie self remote movie_id)))
      else if name = ''radarr_search_movie'' then
        (if \<not> configured (radarr_client self) then radarr_missing
         else bind_io (lift_io (py_getitem arguments ''movie_id'')) (\<lambda>movie_id.
                text_result (search_radarr_movie self remote movie_id)))
      else lift_io (Inr [TextContent (''Unknown tool: '' @ name)]))"

text \<open>\<open>call_tool\<close>: the \<open>try\<close> block under \<open>except Exception as e\<close>, which turns whatever
  was raised into one text item. The requests already sent stay sent.\<close>

definition call_tool :: "mcp \<Rightarrow> remote \<Rightarrow> int \<Rightarrow> string \<Rightarrow> json \<Rightarrow> text_content list io" where
  "call_tool self remote now name arguments =
     (case call_tool_try self remote now name arguments of
        (Inl e, tr) \<Rightarrow> (Inr [TextContent (''Error: '' @ str_exc e)], tr)
      | (Inr r, tr) \<Rightarrow> (Inr r, tr))"

section \<open>The HTTP routes\<close>

text \<open>
  A request is its query parameters, in the order of the query string; a lookup returns
  the last value given for the key. A handler returns a \<open>JSONResponse\<close> (content, status
  code) or raises into the framework (\<open>Inl\<close>).
\<close>

record http_request =
  query_params :: "(string \<times> string) list"

datatype json_response = JSONResponse json nat

definition query_get :: "http_request \<Rightarrow> string \<Rightarrow> string option" where
  "query_get request k = map_of (rev (query_params request)) k"

text \<open>\<open>int(request.query_params.get("days", d))\<close>.\<close>

definition days_param :: "http_request \<Rightarrow> int \<Rightarrow> py_exc + json" where
  "days_param request d = (case query_get request ''days'' of
       None \<Rightarrow> Inr (JInt d)
     | Some s \<Rightarrow> bindE (py_int_of_str s) (\<lambda>i. Inr (JInt i)))"

text \<open>The \<open>try\<close> / \<open>except Exception\<close> block around the facade call of a route.\<close>

definition try_route :: "string io \<Rightarrow> json_response io" where
  "try_route m = (case m of
       (Inr result, tr) \<Rightarrow> (Inr (JSONResponse (JObj [(''result'', JStr result)]) 200), tr)
     | (Inl e, tr) \<Rightarrow> (Inr (JSONResponse (JObj [(''error'', JStr (str_exc e))]) 500), tr))"

definition not_configured_response :: "string \<Rightarrow> json_response io" where
  "not_configured_response name =
     lift_io (Inr (JSONResponse (JObj [(''error'', JStr (name @ '' not configured''))]) 503))"

definition query_required_response :: "json_response io" where
  "query_required_response =
     lift_io (Inr (JSONResponse (JObj [(''error'', JStr ''query parameter required'')]) 400))"

text \<open>\<open>not mcp_instance or not mcp_instance.sonarr_client\<close>.\<close>

definition sonarr_ready :: "mcp option \<Rightarrow> bool" where
  "sonarr_ready mcp_instance =
     (case mcp_instance of None \<Rightarrow> False | Some m \<Rightarrow> configured (sonarr_client m))"

definition radarr_ready :: "mcp option \<Rightarrow> bool" where
  "radarr_ready mcp_instance =
     (case mcp_instance of None \<Rightarrow> False | Some m \<Rightarrow> configured (radarr_client m))"

definition health :: "http_request \<Rightarrow> json_response" where
  "health request = JSONResponse (JObj [(''status'', JStr ''healthy'')]) 200"

definition readiness :: "mcp option \<Rightarrow> http_request \<Rightarrow> json_response" where
  "readiness mcp_instance request = (case mcp_instance of
       None \<Rightarrow> JSONResponse (JObj [(''status'', JStr ''not ready'')]) 503
     | Some m \<Rightarrow>
         JSONResponse (JObj [(''status'', JStr ''ready''),
                             (''sonarr_configured'', JBool (configured (sonarr_client m))),
                             (''radarr_configured'', JBool (configured (radarr_client m)))]) 200)"

definition sonarr_recent_series ::
  "mcp option \<Rightarrow> remote \<Rightarrow> int \<Rightarrow> http_request \<Rightarrow> json_response io" where
  "sonarr_recent_series mcp_instance remote now request =
     (if \<not> sonarr_ready mcp_instance then not_configured_response ''Sonarr''
      else bind_io (lift_io (days_param request 7)) (\<lambda>days.
             try_route (get_recent_series (the mcp_instance) remote now days)))"

definition sonarr_calendar ::
  "mcp option \<Rightarrow> remote \<Rightarrow> int \<Rightarrow> http_request \<Rightarrow> json_response io" where
  "sonarr_calendar mcp_instance remote now request =
     (if \<not> sonarr_ready mcp_instance then not_configured_response ''Sonarr''
      else bind_io (lift_io (days_param request 7)) (\<lambda>days.
             try_route (get_sonarr_calendar (the mcp_instance) remote now days)))"

definition sonarr_search :: "mcp option \<Rightarrow> remote \<Rightarrow> http_request \<Rightarrow> json_response io" where
  "sonarr_search mcp_instance remote request =
     (if \<not> sonarr_ready mcp_instance then not_configured_response ''Sonarr''
      else (let query = (case query_get request ''query'' of None \<Rightarrow> [] | Some q \<Rightarrow> q)
            in if query = [] then query_required_response
               else try_route (search_sonarr_series (the mcp_instance) remote (JStr query))))"

definition sonarr_status :: "mcp option \<Rightarrow> remote \<Rightarrow> http_request \<Rightarrow> json_response io" where
  "sonarr_status mcp_instance remote request =
     (if \<not> sonarr_ready mcp_instance then not_configured_response ''Sonarr''
      else try_route (get_sonarr_status (the mcp_instance) remote))"

definition sonarr_queue :: "mcp option \<Rightarrow> remote \<Rightarrow> http_request \<Rightarrow> json_response io" where
  "sonarr_queue mcp_instance remote request =
     (if \<not> sonarr_ready mcp_instance then not_configured_response ''Sonarr''
      else try_route (get_sonarr_queue (the mcp_instance) remote))"

definition radarr_recent_movies ::
  "mcp option \<Rightarrow> remote \<Rightarrow> int \<Rightarrow> http_request \<Rightarrow> json_response io" where
  "radarr_recent_movies mcp_instance remote now request =
     (if \<not> radarr_ready mcp_instance then not_configured_response ''Radarr''
      else bind_io (lift_io (days_param request 7)) (\<lambda>days.
             try_route (get_recent_movies (the mcp_instance) remote now days)))"

definition radarr_calendar ::
  "mcp option \<Rightarrow> remote \<Rightarrow> int \<Rightarrow> http_request \<Rightarrow> json_response io" where
  "radarr_calendar mcp_instance remote now request =
     (if \<not> radarr_ready mcp_instance then not_configured_response ''Radarr''
      else bind_io (lift_io (days_param request 30)) (\<lambda>days.
             try_route (get_radarr_calendar (the mcp_instance) remote now days)))"

definition radarr_search :: "mcp option \<Rightarrow> remote \<Rightarrow> http_request \<Rightarrow> json_response io" where
  "radarr_search mcp_instance remote request =
     (if \<not> radarr_ready mcp_instance then not_configured_response ''Radarr''
      else (let query = (case query_get request ''query'' of None \<Rightarrow> [] | Some q \<Rightarrow> q)
            in if query = [] then query_required_response
               else try_route (search_radarr_movies (the mcp_instance) remote (JStr query))))"

definition radarr_status :: "mcp option \<Rightarrow> remote \<Rightarrow> http_request \<Rightarrow> json_response io" where
  "radarr_status mcp_instance remote request =
     (if \<not> radarr_ready mcp_instance then not_configured_response ''Radarr''
      else try_route (get_radarr_status (the mcp_instance) remote))"

definition radarr_queue :: "mcp option \<Rightarrow> remote \<Rightarrow> http_request \<Rightarrow> json_response io" where
  "radarr_queue mcp_instance remote request =
     (if \<not> radarr_ready mcp_instance then not_configured_response ''Radarr''
      else try_route (get_radarr_queue (the mcp_instance) remote))"

section \<open>Tool registration\<close>

text \<open>The names \<open>list_tools\<close> registers, and for each tool with a \<open>required\<close> entry in
  its input schema the argument it requires.\<close>

definition sonarr_tools :: "string list" where
  "sonarr_tools =
     [''sonarr_get_recent_series'', ''sonarr_get_calendar'', ''sonarr_search_series'',
      ''sonarr_get_system_status'', ''sonarr_get_queue'', ''sonarr_refresh_series'',
      ''sonarr_search_episodes'']"

definition radarr_tools :: "string list" where
  "radarr_tools =
     [''radarr_get_recent_movies'', ''radarr_get_calendar'', ''radarr_search_movies'',
      ''radarr_get_system_status'', ''radarr_get_queue'', ''radarr_refresh_movie'',
      ''radarr_search_movie'']"

definition list_tools :: "mcp \<Rightarrow> string list" where
  "list_tools self =
     (if configured (sonarr_client self) then sonarr_tools else [])
       @ (if configured (radarr_client self) then radarr_tools else [])"



section \<open>Requests and example data used in the statements\<close>

text \<open>Whether an entity's title contains the query, case-insensitively.\<close>

definition title_matches :: "string \<Rightarrow> json \<Rightarrow> bool" where
  "title_matches q s = (case py_getitem s ''title'' of
       Inr (JStr t) \<Rightarrow> py_contains (map lower_char q) (map lower_char t)
     | _ \<Rightarrow> False)"

text \<open>The request a \<open>get\<close> or a \<open>post\<close> of the client sends.\<close>

definition get_request :: "api_client \<Rightarrow> string \<Rightarrow> request" where
  "get_request c endpoint =
     \<lparr> req_method = GET, req_url = base_url c @ ''/api/v3/'' @ endpoint,
       req_headers = [(''X-Api-Key'', api_key c)], req_params = None, req_json = None \<rparr>"

definition command_request :: "api_client \<Rightarrow> json \<Rightarrow> request" where
  "command_request c payload =
     \<lparr> req_method = POST, req_url = base_url c @ ''/api/v3/command'',
       req_headers = [(''X-Api-Key'', api_key c)], req_params = None,
       req_json = Some payload \<rparr>"

text \<open>Configurations as in the test suite: only Sonarr, both services, and the defaults,
  which configure neither.\<close>

definition sonarr_config :: config where
  "sonarr_config =
     \<lparr> sonarr_url = ''http://sonarr:8989'', sonarr_api_key = ''test-key'',
       radarr_url = [], radarr_api_key = [], request_timeout = 30 \<rparr>"

definition both_config :: config where
  "both_config =
     \<lparr> sonarr_url = ''http://sonarr:8989'', sonarr_api_key = ''test-key'',
       radarr_url = ''http://radarr:7878'', radarr_api_key = ''test-key-2'',
       request_timeout = 30 \<rparr>"

definition default_config :: config where
  "default_config =
     \<lparr> sonarr_url = [], sonarr_api_key = [], radarr_url = [], radarr_api_key = [],
       request_timeout = 30 \<rparr>"

definition radarr_config :: config where
  "radarr_config =
     \<lparr> sonarr_url = [], sonarr_api_key = [],
       radarr_url = ''http://radarr:7878'', radarr_api_key = ''test-key-2'',
       request_timeout = 30 \<rparr>"

definition sonarr_api :: api_client where
  "sonarr_api = \<lparr> base_url = ''http://sonarr:8989'', api_key = ''test-key'', timeout = 30 \<rparr>"

definition radarr_api :: api_client where
  "radarr_api = \<lparr> base_url = ''http://radarr:7878'', api_key = ''test-key-2'', timeout = 30 \<rparr>"

text \<open>The clock reads 2024-01-10T12:00:00.\<close>

definition example_now :: int where
  "example_now = 63840484800000000"

text \<open>A series as Sonarr reports it, added a day before, with a \<open>Z\<close> timestamp; the same
  entity with a naive timestamp and without a network.\<close>

definition series_utc :: json where
  "series_utc = JObj [(''title'', JStr ''Alpha''), (''year'', JInt 2020),
     (''added'', JStr ''2024-01-09T08:00:00Z''), (''status'', JStr ''ended''),
     (''network'', JStr ''HBO''), (''seasonCount'', JInt 3), (''id'', JInt 1)]"

definition series_naive :: json where
  "series_naive = JObj [(''title'', JStr ''Beta''), (''year'', JInt 2021),
     (''added'', JStr ''2024-01-09T08:00:00''), (''status'', JStr ''ended''),
     (''seasonCount'', JInt 2), (''id'', JInt 2)]"

definition movie_naive :: json where
  "movie_naive = JObj [(''title'', JStr ''Gamma''), (''year'', JInt 2022),
     (''added'', JStr ''2024-01-09T08:00:00''), (''status'', JStr ''released''),
     (''id'', JInt 3)]"

definition movie_utc :: json where
  "movie_utc = JObj [(''title'', JStr ''Delta''), (''year'', JInt 2023),
     (''added'', JStr ''2024-01-09T08:00:00Z''), (''status'', JStr ''released''),
     (''studio'', JStr ''A24''), (''id'', JInt 4)]"

text \<open>A queue record with one and a half megabytes left.\<close>

definition example_queue_item :: json where
  "example_queue_item = JObj [(''series'', JObj [(''title'', JStr ''Alpha'')]),
     (''episode'', JObj [(''seasonNumber'', JInt 1), (''episodeNumber'', JInt 2)]),
     (''status'', JStr ''downloading''), (''sizeleft'', JInt 1572864)]"

definition example_movie_item :: json where
  "example_movie_item = JObj [(''movie'', JObj [(''title'', JStr ''Gamma''), (''year'', JInt 2022)]),
     (''status'', JStr ''paused''), (''sizeleft'', JInt 131072)]"

text \<open>A record that lacks its \<open>series\<close> entry.\<close>

definition broken_queue_item :: json where
  "broken_queue_item = JObj [(''status'', JStr ''downloading''), (''sizeleft'', JInt 1)]"

text \<open>Remote sides: one that lists a single entity whatever is asked, one that answers
  every request with an empty 200, one that accepts every command, one that is down.\<close>

definition remote_list :: "json \<Rightarrow> remote" where
  "remote_list entity req = Response 200 (JsonBody (JArr [entity]))"

definition remote_empty_body :: remote where
  "remote_empty_body req = Response 200 (NotJson ''Expecting value: line 1 column 1 (char 0)'')"

definition remote_accepting :: remote where
  "remote_accepting req = Response 201 (JsonBody (JObj [(''id'', JInt 77)]))"

definition remote_down :: remote where
  "remote_down req = NoResponse ''All connection attempts failed''"

text \<open>One that answers every request with the given document, and one whose connection
  fails with the given text.\<close>

definition remote_json :: "json \<Rightarrow> remote" where
  "remote_json doc req = Response 200 (JsonBody doc)"


section \<open>Properties\<close>

subsection \<open>Auxiliary facts about the client and the handler\<close>

lemma api_post_command:
  "api_post c remote ''command'' payload =
     (handle_outcome (remote (command_request c payload)), [command_request c payload])"
  by (simp add: api_post_def command_request_def Let_def)

lemma api_get_request:
  "api_get c remote endpoint None =
     (handle_outcome (remote (get_request c endpoint)), [get_request c endpoint])"
  by (simp add: api_get_def get_request_def Let_def)

lemma command_io:
  "bind_io (client_post (Some c) remote ''command'' payload) (\<lambda>_. lift_io (Inr msg)) =
     (case handle_outcome (remote (command_request c payload)) of
        Inl e \<Rightarrow> Inl e | Inr _ \<Rightarrow> Inr msg, [command_request c payload])"
  by (simp add: client_post_def api_post_command bind_io_def lift_io_def split: sum.splits)

lemma text_result_shape:
  "text_result m = (Inr r, tr) \<Longrightarrow> \<exists>t. r = [TextContent t]"
  by (auto simp add: text_result_def bind_io_def lift_io_def split: prod.splits sum.splits)

lemma arg_text_result_shape:
  "bind_io (a, []) (\<lambda>v. text_result (f v)) = (Inr r, tr) \<Longrightarrow> \<exists>t. r = [TextContent t]"
  by (auto simp add: bind_io_def lift_io_def split: prod.splits sum.splits dest: text_result_shape)

lemma call_tool_try_shape:
  "call_tool_try self remote now name arguments = (Inr r, tr) \<Longrightarrow> \<exists>t. r = [TextContent t]"
  unfolding call_tool_try_def Let_def
  by (auto simp add: lift_io_def split: if_splits dest: text_result_shape arg_text_result_shape)

lemma call_tool_shape:
  "\<exists>t. fst (call_tool self remote now name arguments) = Inr [TextContent t]"
proof (cases "call_tool_try self remote now name arguments")
  case (Pair res tr)
  show ?thesis
  proof (cases res)
    case (Inl e)
    with Pair show ?thesis by (simp add: call_tool_def)
  next
    case (Inr r)
    with Pair call_tool_try_shape obtain t where "r = [TextContent t]" by blast
    with Pair Inr show ?thesis by (simp add: call_tool_def)
  qed
qed

subsection \<open>The handler never raises\<close>

text \<open>
  C9. For every tool name and every argument bag, \<open>call_tool\<close> returns (it does not raise
  into the transport) and what it returns is one text item. Whatever the dispatched branch
  raised is rendered as \<open>Error: \<close> followed by the text of the exception, and the requests
  sent before the raise are the ones the call has sent.
\<close>

theorem call_tool_total:
  "(\<exists>t. fst (call_tool self remote now name arguments) = Inr [TextContent t])
   \<and> (\<forall>e. fst (call_tool_try self remote now name arguments) = Inl e \<longrightarrow>
          fst (call_tool self remote now name arguments)
            = Inr [TextContent (''Error: '' @ str_exc e)])
   \<and> snd (call_tool self remote now name arguments)
       = snd (call_tool_try self remote now name arguments)"
  using call_tool_shape[of self remote now name arguments]
  by (auto simp add: call_tool_def split: prod.splits sum.splits)

theorem call_tool_total_witness:
  "fst (call_tool_try (init_mcp sonarr_config) remote_down example_now
          ''sonarr_get_queue'' (JObj []))
     = Inl (TransportError ''All connection attempts failed'')
   \<and> fst (call_tool (init_mcp sonarr_config) remote_down example_now
            ''sonarr_get_queue'' (JObj []))
     = Inr [TextContent ''Error: All connection attempts failed'']"
proof -
  have raised: "fst (call_tool_try (init_mcp sonarr_config) remote_down example_now
                  ''sonarr_get_queue'' (JObj []))
                = Inl (TransportError ''All connection attempts failed'')"
    by (simp add: call_tool_try_def init_mcp_def sonarr_config_def validate_service_def
        configured_def text_result_def get_sonarr_queue_def client_get_def api_get_def
        handle_outcome_def remote_down_def bind_io_def lift_io_def)
  from call_tool_total[of "init_mcp sonarr_config" remote_down example_now
      "''sonarr_get_queue''" "JObj []"] raised
  show ?thesis by simp
qed

subsection \<open>A command that was sent is not undone by a failed reply\<close>

lemma radarr_only_clients:
  "sonarr_client (init_mcp radarr_config) = None"
  "radarr_client (init_mcp radarr_config) = Some radarr_api"
  "radarr_client (init_mcp sonarr_config) = None"
  by (simp_all add: init_mcp_def radarr_config_def sonarr_config_def validate_service_def
      radarr_api_def)

lemma sonarr_only_client:
  "sonarr_client (init_mcp sonarr_config) = Some sonarr_api"
  by (simp add: init_mcp_def sonarr_config_def validate_service_def sonarr_api_def)

text \<open>
  C10. If the backend answers the command POST of a refresh or a trigger-search with a 2xx
  status and a body that is empty or no JSON document, the operation fails with the
  decoder's error, and the list of requests sent holds that POST: the command has reached
  the backend although the operation reports a failure. This holds for each of the four
  operations on its own command request, with nothing assumed about the other backend.
\<close>

theorem command_sent_despite_failure:
  "(sonarr_client self = Some sc \<longrightarrow>
      (\<forall>st m. 200 \<le> st \<and> st < 300
          \<and> remote (command_request sc
                (JObj [(''name'', JStr ''RefreshSeries''), (''seriesId'', i)]))
              = Response st (NotJson m) \<longrightarrow>
          refresh_sonarr_series self remote i =
            (Inl (JSONDecodeError m),
             [command_request sc (JObj [(''name'', JStr ''RefreshSeries''), (''seriesId'', i)])]))
      \<and> (\<forall>st m. 200 \<le> st \<and> st < 300
          \<and> remote (command_request sc
                (JObj [(''name'', JStr ''SeriesSearch''), (''seriesId'', i)]))
              = Response st (NotJson m) \<longrightarrow>
          search_sonarr_episodes self remote i =
            (Inl (JSONDecodeError m),
             [command_request sc (JObj [(''name'', JStr ''SeriesSearch''), (''seriesId'', i)])])))
   \<and> (radarr_client self = Some rc \<longrightarrow>
      (\<forall>st m. 200 \<le> st \<and> st < 300
          \<and> remote (command_request rc
                (JObj [(''name'', JStr ''RefreshMovie''), (''movieIds'', JArr [i])]))
              = Response st (NotJson m) \<longrightarrow>
          refresh_radarr_movie self remote i =
            (Inl (JSONDecodeError m),
             [command_request rc
                (JObj [(''name'', JStr ''RefreshMovie''), (''movieIds'', JArr [i])])]))
      \<and> (\<forall>st m. 200 \<le> st \<and> st < 300
          \<and> remote (command_request rc
                (JObj [(''name'', JStr ''MoviesSearch''), (''movieIds'', JArr [i])]))
              = Response st (NotJson m) \<longrightarrow>
          search_radarr_movie self remote i =
            (Inl (JSONDecodeError m),
             [command_request rc
                (JObj [(''name'', JStr ''MoviesSearch''), (''movieIds'', JArr [i])])])))"
  by (simp add: refresh_sonarr_series_def search_sonarr_episodes_def refresh_radarr_movie_def
      search_radarr_movie_def command_io handle_outcome_def)

theorem command_sent_despite_failure_witness:
  "refresh_sonarr_series (init_mcp sonarr_config) remote_empty_body (JInt 5) =
     (Inl (JSONDecodeError ''Expecting value: line 1 column 1 (char 0)''),
      [command_request sonarr_api (JObj [(''name'', JStr ''RefreshSeries''), (''seriesId'', JInt 5)])])
   \<and> search_sonarr_episodes (init_mcp sonarr_config) remote_empty_body (JInt 5) =
     (Inl (JSONDecodeError ''Expecting value: line 1 column 1 (char 0)''),
      [command_request sonarr_api (JObj [(''name'', JStr ''SeriesSearch''), (''seriesId'', JInt 5)])])
   \<and> refresh_radarr_movie (init_mcp radarr_config) remote_empty_body (JInt 5) =
     (Inl (JSONDecodeError ''Expecting value: line 1 column 1 (char 0)''),
      [command_request radarr_api
         (JObj [(''name'', JStr ''RefreshMovie''), (''movieIds'', JArr [JInt 5])])])
   \<and> search_radarr_movie (init_mcp radarr_config) remote_empty_body (JInt 5) =
     (Inl (JSONDecodeError ''Expecting value: line 1 column 1 (char 0)''),
      [command_request radarr_api
         (JObj [(''name'', JStr ''MoviesSearch''), (''movieIds'', JArr [JInt 5])])])"
proof -
  have a: "\<And>req. remote_empty_body req
             = Response 200 (NotJson ''Expecting value: line 1 column 1 (char 0)'')"
    by (simp add: remote_empty_body_def)
  from command_sent_despite_failure[where self = "init_mcp sonarr_config" and sc = sonarr_api
      and remote = remote_empty_body and i = "JInt 5"]
    command_sent_despite_failure[where self = "init_mcp radarr_config" and rc = radarr_api
      and remote = remote_empty_body and i = "JInt 5"]
    sonarr_only_client radarr_only_clients(2) a
  show ?thesis by simp
qed

subsection \<open>An unconfigured backend\<close>

lemma call_tool_sonarr_unconfigured:
  assumes "sonarr_client self = None" and "name \<in> set sonarr_tools"
  shows "call_tool self remote now name arguments = (Inr [TextContent ''Sonarr is not configured''], [])"
  using assms
  by (auto simp add: sonarr_tools_def call_tool_def call_tool_try_def configured_def lift_io_def)

lemma call_tool_radarr_unconfigured:
  assumes "radarr_client self = None" and "name \<in> set radarr_tools"
  shows "call_tool self remote now name arguments = (Inr [TextContent ''Radarr is not configured''], [])"
  using assms
  by (auto simp add: radarr_tools_def call_tool_def call_tool_try_def configured_def lift_io_def)

lemma sonarr_routes_unconfigured:
  assumes "\<not> sonarr_ready mcp_instance"
  shows "sonarr_recent_series mcp_instance remote now request
           = (Inr (JSONResponse (JObj [(''error'', JStr ''Sonarr not configured'')]) 503), [])"
    and "sonarr_calendar mcp_instance remote now request
           = (Inr (JSONResponse (JObj [(''error'', JStr ''Sonarr not configured'')]) 503), [])"
    and "sonarr_search mcp_instance remote request
           = (Inr (JSONResponse (JObj [(''error'', JStr ''Sonarr not configured'')]) 503), [])"
    and "sonarr_status mcp_instance remote request
           = (Inr (JSONResponse (JObj [(''error'', JStr ''Sonarr not configured'')]) 503), [])"
    and "sonarr_queue mcp_instance remote request
           = (Inr (JSONResponse (JObj [(''error'', JStr ''Sonarr not configured'')]) 503), [])"
  using assms
  by (simp_all add: sonarr_recent_series_def sonarr_calendar_def sonarr_search_def
      sonarr_status_def sonarr_queue_def not_configured_response_def lift_io_def)

lemma radarr_routes_unconfigured:
  assumes "\<not> radarr_ready mcp_instance"
  shows "radarr_recent_movies mcp_instance remote now request
           = (Inr (JSONResponse (JObj [(''error'', JStr ''Radarr not configured'')]) 503), [])"
    and "radarr_calendar mcp_instance remote now request
           = (Inr (JSONResponse (JObj [(''error'', JStr ''Radarr not configured'')]) 503), [])"
    and "radarr_search mcp_instance remote request
           = (Inr (JSONResponse (JObj [(''error'', JStr ''Radarr not configured'')]) 503), [])"
    and "radarr_status mcp_instance remote request
           = (Inr (JSONResponse (JObj [(''error'', JStr ''Radarr not configured'')]) 503), [])"
    and "radarr_queue mcp_instance remote request
           = (Inr (JSONResponse (JObj [(''error'', JStr ''Radarr not configured'')]) 503), [])"
  using assms
  by (simp_all add: radarr_recent_movies_def radarr_calendar_def radarr_search_def
      radarr_status_def radarr_queue_def not_configured_response_def lift_io_def)

lemma init_mcp_sonarr_none:
  "sonarr_url cfg = [] \<or> sonarr_api_key cfg = [] \<Longrightarrow> sonarr_client (init_mcp cfg) = None"
  by (auto simp add: init_mcp_def validate_service_def)

lemma init_mcp_radarr_none:
  "radarr_url cfg = [] \<or> radarr_api_key cfg = [] \<Longrightarrow> radarr_client (init_mcp cfg) = None"
  by (auto simp add: init_mcp_def validate_service_def)

text \<open>
  C2. If the URL or the API key of a backend is empty, the server object holds no client
  for it, every tool of that backend answers with the text \<open>Sonarr is not configured\<close>
  (or \<open>Radarr is not configured\<close>) and every HTTP route of that backend answers 503 with
  \<open>Sonarr not configured\<close> (or \<open>Radarr not configured\<close>), in each case with no request
  sent, and the readiness route reports the backend's flag as false. The text of the tool
  answer is none that the rendering of a raised exception (\<open>Error: ...\<close>) can produce.
\<close>

theorem unconfigured_backend_rejected:
  "(sonarr_url cfg = [] \<or> sonarr_api_key cfg = [] \<longrightarrow>
      sonarr_client (init_mcp cfg) = None
      \<and> (\<forall>name \<in> set sonarr_tools.
            call_tool (init_mcp cfg) remote now name arguments
              = (Inr [TextContent ''Sonarr is not configured''], []))
      \<and> sonarr_recent_series (Some (init_mcp cfg)) remote now request
          = (Inr (JSONResponse (JObj [(''error'', JStr ''Sonarr not configured'')]) 503), [])
      \<and> sonarr_calendar (Some (init_mcp cfg)) remote now request
          = (Inr (JSONResponse (JObj [(''error'', JStr ''Sonarr not configured'')]) 503), [])
      \<and> sonarr_search (Some (init_mcp cfg)) remote request
          = (Inr (JSONResponse (JObj [(''error'', JStr ''Sonarr not configured'')]) 503), [])
      \<and> sonarr_status (Some (init_mcp cfg)) remote request
          = (Inr (JSONResponse (JObj [(''error'', JStr ''Sonarr not configured'')]) 503), [])
      \<and> sonarr_queue (Some (init_mcp cfg)) remote request
          = (Inr (JSONResponse (JObj [(''error'', JStr ''Sonarr not configured'')]) 503), [])
      \<and> (\<exists>flag. readiness (Some (init_mcp cfg)) request
            = JSONResponse (JObj [(''status'', JStr ''ready''),
                                  (''sonarr_configured'', JBool False),
                                  (''radarr_configured'', JBool flag)]) 200))
   \<and> (radarr_url cfg = [] \<or> radarr_api_key cfg = [] \<longrightarrow>
      radarr_client (init_mcp cfg) = None
      \<and> (\<forall>name \<in> set radarr_tools.
            call_tool (init_mcp cfg) remote now name arguments
              = (Inr [TextContent ''Radarr is not configured''], []))
      \<and> radarr_recent_movies (Some (init_mcp cfg)) remote now request
          = (Inr (JSONResponse (JObj [(''error'', JStr ''Radarr not configured'')]) 503), [])
      \<and> radarr_calendar (Some (init_mcp cfg)) remote now request
          = (Inr (JSONResponse (JObj [(''error'', JStr ''Radarr not configured'')]) 503), [])
      \<and> radarr_search (Some (init_mcp cfg)) remote request
          = (Inr (JSONResponse (JObj [(''error'', JStr ''Radarr not configured'')]) 503), [])
      \<and> radarr_status (Some (init_mcp cfg)) remote request
          = (Inr (JSONResponse (JObj [(''error'', JStr ''Radarr not configured'')]) 503), [])
      \<and> radarr_queue (Some (init_mcp cfg)) remote request
          = (Inr (JSONResponse (JObj [(''error'', JStr ''Radarr not configured'')]) 503), [])
      \<and> (\<exists>flag. readiness (Some (init_mcp cfg)) request
            = JSONResponse (JObj [(''status'', JStr ''ready''),
                                  (''sonarr_configured'', JBool flag),
                                  (''radarr_configured'', JBool False)]) 200))
   \<and> (\<forall>m. ''Sonarr is not configured'' \<noteq> ''Error: '' @ m
          \<and> ''Radarr is not configured'' \<noteq> ''Error: '' @ m)"
proof (intro conjI impI allI)
  assume a: "sonarr_url cfg = [] \<or> sonarr_api_key cfg = []"
  then have n: "sonarr_client (init_mcp cfg) = None" by (rule init_mcp_sonarr_none)
  then have nr: "\<not> sonarr_ready (Some (init_mcp cfg))"
    by (simp add: sonarr_ready_def configured_def)
  show "sonarr_client (init_mcp cfg) = None" by (rule n)
  show "\<forall>name \<in> set sonarr_tools.
            call_tool (init_mcp cfg) remote now name arguments
              = (Inr [TextContent ''Sonarr is not configured''], [])"
    using call_tool_sonarr_unconfigured[OF n] by blast
  show "sonarr_recent_series (Some (init_mcp cfg)) remote now request
          = (Inr (JSONResponse (JObj [(''error'', JStr ''Sonarr not configured'')]) 503), [])"
    by (rule sonarr_routes_unconfigured[OF nr])
  show "sonarr_calendar (Some (init_mcp cfg)) remote now request
          = (Inr (JSONResponse (JObj [(''error'', JStr ''Sonarr not configured'')]) 503), [])"
    by (rule sonarr_routes_unconfigured[OF nr])
  show "sonarr_search (Some (init_mcp cfg)) remote request
          = (Inr (JSONResponse (JObj [(''error'', JStr ''Sonarr not configured'')]) 503), [])"
    by (rule sonarr_routes_unconfigured[OF nr])
  show "sonarr_status (Some (init_mcp cfg)) remote request
          = (Inr (JSONResponse (JObj [(''error'', JStr ''Sonarr not configured'')]) 503), [])"
    by (rule sonarr_routes_unconfigured[OF nr])
  show "sonarr_queue (Some (init_mcp cfg)) remote request
          = (Inr (JSONResponse (JObj [(''error'', JStr ''Sonarr not configured'')]) 503), [])"
    by (rule sonarr_routes_unconfigured[OF nr])
  show "\<exists>flag. readiness (Some (init_mcp cfg)) request
            = JSONResponse (JObj [(''status'', JStr ''ready''),
                                  (''sonarr_configured'', JBool False),
                                  (''radarr_configured'', JBool flag)]) 200"
    using n by (simp add: readiness_def configured_def)
next
  assume a: "radarr_url cfg = [] \<or> radarr_api_key cfg = []"
  then have n: "radarr_client (init_mcp cfg) = None" by (rule init_mcp_radarr_none)
  then have nr: "\<not> radarr_ready (Some (init_mcp cfg))"
    by (simp add: radarr_ready_def configured_def)
  show "radarr_client (init_mcp cfg) = None" by (rule n)
  show "\<forall>name \<in> set radarr_tools.
            call_tool (init_mcp cfg) remote now name arguments
              = (Inr [TextContent ''Radarr is not configured''], [])"
    using call_tool_radarr_unconfigured[OF n] by blast
  show "radarr_recent_movies (Some (init_mcp cfg)) remote now request
          = (Inr (JSONResponse (JObj [(''error'', JStr ''Radarr not configured'')]) 503), [])"
    by (rule radarr_routes_unconfigured[OF nr])
  show "radarr_calendar (Some (init_mcp cfg)) remote now request
          = (Inr (JSONResponse (JObj [(''error'', JStr ''Radarr not configured'')]) 503), [])"
    by (rule radarr_routes_unconfigured[OF nr])
  show "radarr_search (Some (init_mcp cfg)) remote request
          = (Inr (JSONResponse (JObj [(''error'', JStr ''Radarr not configured'')]) 503), [])"
    by (rule radarr_routes_unconfigured[OF nr])
  show "radarr_status (Some (init_mcp cfg)) remote request
          = (Inr (JSONResponse (JObj [(''error'', JStr ''Radarr not configured'')]) 503), [])"
    by (rule radarr_routes_unconfigured[OF nr])
  show "radarr_queue (Some (init_mcp cfg)) remote request
          = (Inr (JSONResponse (JObj [(''error'', JStr ''Radarr not configured'')]) 503), [])"
    by (rule radarr_routes_unconfigured[OF nr])
  show "\<exists>flag. readiness (Some (init_mcp cfg)) request
            = JSONResponse (JObj [(''status'', JStr ''ready''),
                                  (''sonarr_configured'', JBool flag),
                                  (''radarr_configured'', JBool False)]) 200"
    using n by (simp add: readiness_def configured_def)
next
  fix m :: string
  show "''Sonarr is not configured'' \<noteq> ''Error: '' @ m" by simp
  show "''Radarr is not configured'' \<noteq> ''Error: '' @ m" by simp
qed

theorem unconfigured_backend_rejected_witness:
  "sonarr_client (init_mcp default_config) = None
   \<and> call_tool (init_mcp default_config) remote_accepting example_now ''sonarr_refresh_series''
        (JObj [(''series_id'', JInt 5)]) = (Inr [TextContent ''Sonarr is not configured''], [])
   \<and> radarr_queue (Some (init_mcp default_config)) remote_accepting \<lparr> query_params = [] \<rparr>
        = (Inr (JSONResponse (JObj [(''error'', JStr ''Radarr not configured'')]) 503), [])
   \<and> readiness (Some (init_mcp default_config)) \<lparr> query_params = [] \<rparr>
        = JSONResponse (JObj [(''status'', JStr ''ready''), (''sonarr_configured'', JBool False),
                              (''radarr_configured'', JBool False)]) 200"
proof -
  have s: "sonarr_url default_config = [] \<or> sonarr_api_key default_config = []"
    and r: "radarr_url default_config = [] \<or> radarr_api_key default_config = []"
    by (simp_all add: default_config_def)
  have m: "''sonarr_refresh_series'' \<in> set sonarr_tools" by (simp add: sonarr_tools_def)
  from unconfigured_backend_rejected[of default_config remote_accepting example_now
      "JObj [(''series_id'', JInt 5)]" "\<lparr> query_params = [] \<rparr>"] s r m
  show ?thesis by (auto simp add: readiness_def)
qed

subsection \<open>Commands\<close>

text \<open>
  C6. For every id, each of refresh and trigger-search sends exactly one request, a POST to
  the command endpoint of its own backend, whatever the backend answers and whether or not
  the other backend is configured; the payload carries the id as the scalar field
  \<open>seriesId\<close> for the series backend and as the one-element list \<open>movieIds\<close> for the movie
  backend. When the backend accepts that command (a 2xx status with a JSON body), the
  operation returns its confirmation sentence, which ends with the id as \<open>str\<close> prints it,
  for an integer id its decimal numeral.
\<close>

theorem command_round_trip:
  "(sonarr_client self = Some sc \<longrightarrow>
      snd (refresh_sonarr_series self remote i)
        = [command_request sc (JObj [(''name'', JStr ''RefreshSeries''), (''seriesId'', i)])]
      \<and> snd (search_sonarr_episodes self remote i)
        = [command_request sc (JObj [(''name'', JStr ''SeriesSearch''), (''seriesId'', i)])]
      \<and> (\<forall>st j. 200 \<le> st \<and> st < 300
            \<and> remote (command_request sc
                  (JObj [(''name'', JStr ''RefreshSeries''), (''seriesId'', i)]))
                = Response st (JsonBody j) \<longrightarrow>
            fst (refresh_sonarr_series self remote i)
              = Inr (''Refresh triggered for series ID '' @ py_str i))
      \<and> (\<forall>st j. 200 \<le> st \<and> st < 300
            \<and> remote (command_request sc
                  (JObj [(''name'', JStr ''SeriesSearch''), (''seriesId'', i)]))
                = Response st (JsonBody j) \<longrightarrow>
            fst (search_sonarr_episodes self remote i)
              = Inr (''Episode search triggered for series ID '' @ py_str i)))
   \<and> (radarr_client self = Some rc \<longrightarrow>
      snd (refresh_radarr_movie self remote i)
        = [command_request rc (JObj [(''name'', JStr ''RefreshMovie''), (''movieIds'', JArr [i])])]
      \<and> snd (search_radarr_movie self remote i)
        = [command_request rc (JObj [(''name'', JStr ''MoviesSearch''), (''movieIds'', JArr [i])])]
      \<and> (\<forall>st j. 200 \<le> st \<and> st < 300
            \<and> remote (command_request rc
                  (JObj [(''name'', JStr ''RefreshMovie''), (''movieIds'', JArr [i])]))
                = Response st (JsonBody j) \<longrightarrow>
            fst (refresh_radarr_movie self remote i)
              = Inr (''Refresh triggered for movie ID '' @ py_str i))
      \<and> (\<forall>st j. 200 \<le> st \<and> st < 300
            \<and> remote (command_request rc
                  (JObj [(''name'', JStr ''MoviesSearch''), (''movieIds'', JArr [i])]))
                = Response st (JsonBody j) \<longrightarrow>
            fst (search_radarr_movie self remote i)
              = Inr (''Search triggered for movie ID '' @ py_str i)))
   \<and> py_str (JInt n) = show_int n
   \<and> req_method (command_request c payload) = POST
   \<and> req_url (command_request c payload) = base_url c @ ''/api/v3/command''
   \<and> req_json (command_request c payload) = Some payload"
  by (simp add: refresh_sonarr_series_def search_sonarr_episodes_def refresh_radarr_movie_def
      search_radarr_movie_def command_io handle_outcome_def py_str_def command_request_def)

theorem command_round_trip_witness:
  "refresh_sonarr_series (init_mcp sonarr_config) remote_accepting (JInt 5)
     = (Inr ''Refresh triggered for series ID 5'',
        [command_request sonarr_api
           (JObj [(''name'', JStr ''RefreshSeries''), (''seriesId'', JInt 5)])])
   \<and> search_sonarr_episodes (init_mcp sonarr_config) remote_accepting (JInt 5)
     = (Inr ''Episode search triggered for series ID 5'',
        [command_request sonarr_api
           (JObj [(''name'', JStr ''SeriesSearch''), (''seriesId'', JInt 5)])])
   \<and> refresh_radarr_movie (init_mcp radarr_config) remote_accepting (JInt 5)
     = (Inr ''Refresh triggered for movie ID 5'',
        [command_request radarr_api
           (JObj [(''name'', JStr ''RefreshMovie''), (''movieIds'', JArr [JInt 5])])])
   \<and> search_radarr_movie (init_mcp radarr_config) remote_accepting (JInt 5)
     = (Inr ''Search triggered for movie ID 5'',
        [command_request radarr_api
           (JObj [(''name'', JStr ''MoviesSearch''), (''movieIds'', JArr [JInt 5])])])
   \<and> snd (refresh_sonarr_series (init_mcp sonarr_config) remote_down (JInt 5))
     = [command_request sonarr_api
           (JObj [(''name'', JStr ''RefreshSeries''), (''seriesId'', JInt 5)])]"
proof -
  have a: "\<And>req. remote_accepting req = Response 201 (JsonBody (JObj [(''id'', JInt 77)]))"
    by (simp add: remote_accepting_def)
  have five: "show_int 5 = ''5''" by code_simp
  from command_round_trip[where self = "init_mcp sonarr_config" and sc = sonarr_api
      and remote = remote_accepting and i = "JInt 5" and n = 5]
    command_round_trip[where self = "init_mcp radarr_config" and rc = radarr_api
      and remote = remote_accepting and i = "JInt 5" and n = 5]
    command_round_trip[where self = "init_mcp sonarr_config" and sc = sonarr_api
      and remote = remote_down and i = "JInt 5"]
    sonarr_only_client radarr_only_clients(2) a five
  show ?thesis by (simp add: prod_eq_iff)
qed

subsection \<open>Missing required arguments\<close>













subsection \<open>Evaluation on the example data\<close>

lemmas parse_defs = fromisoformat_def parse_time_def is_sign_def parse_hms_def parse_digits_def
  is_digit_def digits_value_def new_datetime_def ymd2days_def days_before_year_def
  days_before_month_def days_in_month_def is_leap_def us_per_day_def

lemma fromisoformat_utc:
  "fromisoformat ''2024-01-09T08:00:00+00:00'' = Inr (DateTime 63840384000000000 (Some 0))"
  by (simp add: parse_defs)

lemma fromisoformat_naive:
  "fromisoformat ''2024-01-09T08:00:00'' = Inr (DateTime 63840384000000000 None)"
  by (simp add: parse_defs)

lemma example_clients:
  "sonarr_client (init_mcp sonarr_config) = Some sonarr_api"
  "sonarr_client (init_mcp both_config) = Some sonarr_api"
  "radarr_client (init_mcp both_config) = Some radarr_api"
  by (simp_all add: init_mcp_def sonarr_config_def both_config_def validate_service_def
      sonarr_api_def radarr_api_def)

lemmas io_defs = client_get_def api_get_request remote_list_def handle_outcome_def bind_io_def
  lift_io_def bindE_def

lemma digit_char_values:
  "digit_char 0 = CHR ''0''" "digit_char 1 = CHR ''1''" "digit_char (Suc 0) = CHR ''1''"
  "digit_char 2 = CHR ''2''" "digit_char 3 = CHR ''3''" "digit_char 4 = CHR ''4''"
  "digit_char 5 = CHR ''5''" "digit_char 6 = CHR ''6''" "digit_char 7 = CHR ''7''"
  "digit_char 8 = CHR ''8''" "digit_char 9 = CHR ''9''"
  by (code_simp+)

lemmas value_defs = py_iter_def py_getitem_def py_get_def py_str_def py_replace_Z_def
  py_lower_def lower_char_def show_int_def show_nat.simps digit_char_values squote_def

lemmas cutoff_defs = timedelta_days_def datetime_add_def datetime_gt_def example_now_def
  max_us_def us_per_day_def

subsection \<open>Recently added entities\<close>

text \<open>Every entity whose timestamp reads as an aware \<open>datetime\<close> stops the filtering loop:
  the cutoff is naive.\<close>

lemma aware_timestamp_raises:
  assumes "py_getitem show' ''added'' = Inr a" and "py_replace_Z a = Inr s"
    and "fromisoformat s = Inr (DateTime t (Some off))"
  shows "recent_series_step cutoff recent show'
           = Inl (TypeError ''can't compare offset-naive and offset-aware datetimes'')"
    and "recent_movies_step cutoff recent show'
           = Inl (TypeError ''can't compare offset-naive and offset-aware datetimes'')"
  using assms
  by (simp_all add: recent_series_step_def recent_movies_step_def bindE_def datetime_gt_def)

text \<open>An entity whose timestamp reads as a naive \<open>datetime\<close> is kept exactly when it lies
  strictly after the cutoff; one at the cutoff is dropped.\<close>

lemma naive_timestamp_dropped:
  assumes "py_getitem show' ''added'' = Inr a" and "py_replace_Z a = Inr s"
    and "fromisoformat s = Inr (DateTime t None)" and "t \<le> cutoff"
  shows "recent_series_step cutoff recent show' = Inr recent"
    and "recent_movies_step cutoff recent show' = Inr recent"
  using assms
  by (simp_all add: recent_series_step_def recent_movies_step_def bindE_def datetime_gt_def)

lemma naive_timestamp_kept:
  assumes "show' = JObj kvs" and "map_of kvs ''added'' = Some a" and "py_replace_Z a = Inr s"
    and "fromisoformat s = Inr (DateTime t None)" and "cutoff < t"
    and "map_of kvs ''title'' = Some title" and "map_of kvs ''status'' = Some status"
  shows "\<exists>entry. recent_series_step cutoff recent show' = Inr (recent @ [entry])
           \<and> py_getitem entry ''title'' = Inr title \<and> py_getitem entry ''added'' = Inr a"
  using assms
  by (simp add: recent_series_step_def bindE_def datetime_gt_def py_getitem_def py_get_def
      split: option.splits)

text \<open>
  C1. The claim asks that an entity stamped with a trailing \<open>Z\<close> be read as UTC and
  kept when it lies strictly after \<open>now - days\<close>. The source does not get that far:
  \<open>replace("Z", "+00:00")\<close> makes the parsed \<open>added\<close> an aware \<open>datetime\<close>, the cutoff
  \<open>datetime.now() - timedelta(days)\<close> is naive, and comparing the two raises
  \<open>TypeError\<close>. With one series (or movie) added a day ago and stamped with a trailing
  \<open>Z\<close>, and \<open>days = 7\<close>, the operation raises after the collection was fetched instead of
  reporting the entity.
\<close>

theorem recent_utc_timestamp_raises:
  "get_recent_series (init_mcp both_config) (remote_list series_utc) example_now (JInt 7)
     = (Inl (TypeError ''can't compare offset-naive and offset-aware datetimes''),
        [get_request sonarr_api ''series''])
   \<and> get_recent_movies (init_mcp both_config) (remote_list movie_utc) example_now (JInt 7)
     = (Inl (TypeError ''can't compare offset-naive and offset-aware datetimes''),
        [get_request radarr_api ''movie''])"
  by (simp add: get_recent_series_def get_recent_movies_def example_clients io_defs
      recent_series_text_def recent_movies_text_def recent_series_step_def
      recent_movies_step_def series_utc_def movie_utc_def value_defs cutoff_defs
      fromisoformat_utc)

text \<open>
  C5. The source renders the secondary attribute with \<open>show.get('network', 'Unknown')\<close>, but
  on the entry it built itself with \<open>"network": show.get("network")\<close>: the key is always
  present, with \<open>None\<close> when the backend sent no network, so the default is never used.
  A series without a network is rendered with \<open>Network: None\<close>, a movie without a studio
  with \<open>Studio: None\<close>; the operation succeeds.
\<close>

theorem recent_missing_attribute_renders_None:
  "get_recent_series (init_mcp both_config) (remote_list series_naive) example_now (JInt 7)
     = (Inr (''Recently added series (last 7 days):\<newline>\<newline>''
             @ ''- Beta (2021)\<newline>''
             @ ''  Added: 2024-01-09T08:00:00\<newline>''
             @ ''  Network: None\<newline>''
             @ ''  Seasons: 2\<newline>\<newline>''),
        [get_request sonarr_api ''series''])
   \<and> get_recent_movies (init_mcp both_config) (remote_list movie_naive) example_now (JInt 7)
     = (Inr (''Recently added movies (last 7 days):\<newline>\<newline>''
             @ ''- Gamma (2022)\<newline>''
             @ ''  Added: 2024-01-09T08:00:00\<newline>''
             @ ''  Studio: None\<newline>\<newline>''),
        [get_request radarr_api ''movie''])"
  by (simp add: get_recent_series_def get_recent_movies_def example_clients io_defs
      recent_series_text_def recent_movies_text_def recent_series_step_def
      recent_movies_step_def series_naive_def movie_naive_def value_defs cutoff_defs
      fromisoformat_naive sort_reverse_def added_key_def render_recent_series_def
      render_recent_movie_def)

subsection \<open>Search\<close>

lemma py_contains_iff: "py_contains sub s \<longleftrightarrow> (\<exists>p r. s = p @ sub @ r)"
proof (induction s)
  case Nil
  then show ?case by auto
next
  case (Cons c cs)
  note ih = Cons.IH
  have pre: "take (length sub) (c # cs) = sub \<longleftrightarrow> (\<exists>r. c # cs = sub @ r)"
    by (metis append_eq_conv_conj append_take_drop_id)
  show ?case
  proof
    assume "py_contains sub (c # cs)"
    then consider "take (length sub) (c # cs) = sub" | "py_contains sub cs" by auto
    then show "\<exists>p r. c # cs = p @ sub @ r"
    proof cases
      case 1
      with pre obtain r where "c # cs = sub @ r" by blast
      then have "c # cs = [] @ sub @ r" by simp
      then show ?thesis by blast
    next
      case 2
      with ih obtain p r where "cs = p @ sub @ r" by blast
      then have "c # cs = (c # p) @ sub @ r" by simp
      then show ?thesis by blast
    qed
  next
    assume "\<exists>p r. c # cs = p @ sub @ r"
    then obtain p r where e: "c # cs = p @ sub @ r" by blast
    show "py_contains sub (c # cs)"
    proof (cases p)
      case Nil
      with e have "\<exists>r. c # cs = sub @ r" by auto
      with pre have "take (length sub) (c # cs) = sub" by blast
      then show ?thesis by simp
    next
      case (Cons d p')
      with e have "cs = p' @ sub @ r" by simp
      with ih have "py_contains sub cs" by blast
      then show ?thesis by simp
    qed
  qed
qed

text \<open>On a collection of objects with string titles the comprehension is the filter by
  case-insensitive containment, in collection order.\<close>

lemma match_loop_filter:
  assumes "list_all (\<lambda>s. \<exists>t. py_getitem s ''title'' = Inr (JStr t)) shows"
  shows "for_each (match_step (JStr q)) acc shows = Inr (acc @ filter (title_matches q) shows)"
  using assms
proof (induction "shows" arbitrary: acc)
  case Nil
  then show ?case by simp
next
  case (Cons s rest)
  then obtain t where t: "py_getitem s ''title'' = Inr (JStr t)" by auto
  then have step: "match_step (JStr q) acc s
                     = Inr (if title_matches q s then acc @ [s] else acc)"
    by (simp add: match_step_def title_matches_def py_lower_def bindE_def)
  from Cons show ?case by (simp add: step)
qed

text \<open>
  C3. The HTTP routes reject an empty query with status 400 before any request is sent,
  but \<open>call_tool\<close> passes \<open>arguments["query"]\<close> on as it is: with the empty string the
  collection is fetched and, the empty string being contained in every title, every
  entity matches.
\<close>

theorem call_tool_empty_query_searches:
  "call_tool (init_mcp both_config) (remote_list series_naive) example_now
       ''sonarr_search_series'' (JObj [(''query'', JStr [])])
     = (Inr [TextContent (''Series matching '' @ [CHR 0x27, CHR 0x27] @ '':\<newline>\<newline>''
               @ ''- Beta (2021)\<newline>''
               @ ''  Status: ended\<newline>''
               @ ''  Seasons: 2\<newline>''
               @ ''  ID: 2\<newline>\<newline>'')],
        [get_request sonarr_api ''series''])
   \<and> call_tool (init_mcp both_config) (remote_list movie_naive) example_now
       ''radarr_search_movies'' (JObj [(''query'', JStr [])])
     = (Inr [TextContent (''Movies matching '' @ [CHR 0x27, CHR 0x27] @ '':\<newline>\<newline>''
               @ ''- Gamma (2022)\<newline>''
               @ ''  Status: released\<newline>''
               @ ''  ID: 3\<newline>\<newline>'')],
        [get_request radarr_api ''movie''])
   \<and> sonarr_search (Some (init_mcp both_config)) (remote_list series_naive)
         \<lparr> query_params = [(''query'', [])] \<rparr>
     = (Inr (JSONResponse (JObj [(''error'', JStr ''query parameter required'')]) 400), [])"
  by (simp add: call_tool_def call_tool_try_def configured_def text_result_def
      search_sonarr_series_def search_radarr_movies_def example_clients io_defs
      search_series_text_def search_movies_text_def match_step_def series_naive_def
      movie_naive_def value_defs render_series_match_def render_movie_match_def
      sonarr_search_def sonarr_ready_def query_get_def query_required_response_def)

subsection \<open>Responses of the HTTP routes\<close>

text \<open>Where the routes do answer as documented: a route without \<open>days\<close> always returns a
  JSON response with status 200, 400, 500 or 503, and so does a route with \<open>days\<close> once the
  parameter has been read.\<close>

lemma try_route_json:
  "\<exists>b st tr. try_route m = (Inr (JSONResponse b st), tr) \<and> (st = 200 \<or> st = 500)"
  by (cases m) (auto simp add: try_route_def split: sum.splits)

lemma routes_without_days_answer_json:
  "\<exists>b st tr. sonarr_search mcp_instance remote request = (Inr (JSONResponse b st), tr)
      \<and> st \<in> {200, 400, 500, 503}"
  "\<exists>b st tr. sonarr_status mcp_instance remote request = (Inr (JSONResponse b st), tr)
      \<and> st \<in> {200, 400, 500, 503}"
  "\<exists>b st tr. sonarr_queue mcp_instance remote request = (Inr (JSONResponse b st), tr)
      \<and> st \<in> {200, 400, 500, 503}"
  "\<exists>b st tr. radarr_search mcp_instance remote request = (Inr (JSONResponse b st), tr)
      \<and> st \<in> {200, 400, 500, 503}"
  "\<exists>b st tr. radarr_status mcp_instance remote request = (Inr (JSONResponse b st), tr)
      \<and> st \<in> {200, 400, 500, 503}"
  "\<exists>b st tr. radarr_queue mcp_instance remote request = (Inr (JSONResponse b st), tr)
      \<and> st \<in> {200, 400, 500, 503}"
  using try_route_json
  by (simp_all add: sonarr_search_def sonarr_status_def sonarr_queue_def radarr_search_def
      radarr_status_def radarr_queue_def not_configured_response_def query_required_response_def
      lift_io_def Let_def) blast+

lemma days_routes_answer_json:
  assumes "days_param request 7 = Inr days"
  shows "\<exists>b st tr. sonarr_recent_series mcp_instance remote now request
                      = (Inr (JSONResponse b st), tr) \<and> st \<in> {200, 500, 503}"
    and "\<exists>b st tr. sonarr_calendar mcp_instance remote now request
                      = (Inr (JSONResponse b st), tr) \<and> st \<in> {200, 500, 503}"
    and "\<exists>b st tr. radarr_recent_movies mcp_instance remote now request
                      = (Inr (JSONResponse b st), tr) \<and> st \<in> {200, 500, 503}"
proof -
  have b: "\<And>m. \<exists>b st tr. bind_io (Inr days, []) (\<lambda>d. try_route (m d))
                   = (Inr (JSONResponse b st), tr) \<and> st \<in> {200, 500, 503}"
  proof -
    fix m :: "json \<Rightarrow> string io"
    from try_route_json[of "m days"] obtain b st tr where
      "try_route (m days) = (Inr (JSONResponse b st), tr)" and "st = 200 \<or> st = 500"
      by blast
    then show "\<exists>b st tr. bind_io (Inr days, []) (\<lambda>d. try_route (m d))
                   = (Inr (JSONResponse b st), tr) \<and> st \<in> {200, 500, 503}"
      by (auto simp add: bind_io_def)
  qed
  show "\<exists>b st tr. sonarr_recent_series mcp_instance remote now request
                      = (Inr (JSONResponse b st), tr) \<and> st \<in> {200, 500, 503}"
    using b[of "get_recent_series (the mcp_instance) remote now"] assms
    by (simp add: sonarr_recent_series_def not_configured_response_def lift_io_def)
  show "\<exists>b st tr. sonarr_calendar mcp_instance remote now request
                      = (Inr (JSONResponse b st), tr) \<and> st \<in> {200, 500, 503}"
    using b[of "get_sonarr_calendar (the mcp_instance) remote now"] assms
    by (simp add: sonarr_calendar_def not_configured_response_def lift_io_def)
  show "\<exists>b st tr. radarr_recent_movies mcp_instance remote now request
                      = (Inr (JSONResponse b st), tr) \<and> st \<in> {200, 500, 503}"
    using b[of "get_recent_movies (the mcp_instance) remote now"] assms
    by (simp add: radarr_recent_movies_def not_configured_response_def lift_io_def)
qed

text \<open>
  C8. In the routes that take \<open>days\<close>, \<open>int(request.query_params.get("days", 7))\<close> stands
  before the \<open>try\<close> block. A value that is no integer literal, such as \<open>days=abc\<close>, makes
  the handler raise \<open>ValueError\<close> into the framework instead of returning the JSON body
  \<open>{"error": ...}\<close> with status 500.
\<close>

theorem malformed_days_escapes_handler:
  "sonarr_recent_series (Some (init_mcp both_config)) (remote_list series_naive) example_now
       \<lparr> query_params = [(''days'', ''abc'')] \<rparr>
     = (Inl (ValueError (''invalid literal for int() with base 10: ''
                          @ [CHR 0x27] @ ''abc'' @ [CHR 0x27])), [])
   \<and> radarr_calendar (Some (init_mcp both_config)) (remote_list movie_naive) example_now
       \<lparr> query_params = [(''days'', ''abc'')] \<rparr>
     = (Inl (ValueError (''invalid literal for int() with base 10: ''
                          @ [CHR 0x27] @ ''abc'' @ [CHR 0x27])), [])"
  by (simp add: sonarr_recent_series_def radarr_calendar_def sonarr_ready_def radarr_ready_def
      configured_def example_clients days_param_def query_get_def py_int_of_str_def
      py_strip_def is_space_def is_digit_def repr_str_def repr_char_def bind_io_def lift_io_def
      bindE_def Let_def)

subsection \<open>Rounding and the download queue\<close>

lemma round_half_even_div_near:
  assumes "0 < b"
  shows "\<bar>real (round_half_even_div a b) - real a / real b\<bar> \<le> 1 / 2"
proof -
  define q r where "q = a div b" and "r = a mod b"
  have a: "real a = real q * real b + real r"
    unfolding q_def r_def by (metis div_mult_mod_eq of_nat_add of_nat_mult)
  have rb: "r < b" unfolding r_def using assms by simp
  have quot: "real a / real b = real q + real r / real b"
    using assms by (simp add: a field_simps)
  show ?thesis
  proof (cases "b < 2 * r \<or> (2 * r = b \<and> odd q)")
    case True
    then have res: "round_half_even_div a b = q + 1"
      by (simp add: round_half_even_div_def q_def r_def Let_def)
    from True have "real b \<le> 2 * real r" by (metis less_imp_le of_nat_le_iff of_nat_mult of_nat_numeral order_refl)
    then have "1 / 2 \<le> real r / real b" using assms by (simp add: field_simps)
    moreover have "real r / real b < 1" using rb assms by simp
    ultimately show ?thesis by (simp add: res quot)
  next
    case False
    then have res: "round_half_even_div a b = q"
      by (simp add: round_half_even_div_def q_def r_def Let_def)
    from False have "2 * r \<le> b" by auto
    then have "2 * real r \<le> real b" by (metis of_nat_le_iff of_nat_mult of_nat_numeral)
    then have "real r / real b \<le> 1 / 2" using assms by (simp add: field_simps)
    moreover have "0 \<le> real r / real b" by simp
    ultimately show ?thesis by (simp add: res quot)
  qed
qed

lemma bit_length_bound: "a < 2 ^ j \<Longrightarrow> bit_length a \<le> j"
proof (induction j arbitrary: a)
  case 0
  then show ?case by (simp add: bit_length.simps)
next
  case (Suc j)
  show ?case
  proof (cases "a = 0")
    case True
    then show ?thesis by (simp add: bit_length.simps)
  next
    case False
    from Suc.prems have "a div 2 < 2 ^ j" by simp
    then have "bit_length (a div 2) \<le> j" by (rule Suc.IH)
    with False show ?thesis by (subst bit_length.simps) simp
  qed
qed

lemma round_half_even_div_one: "round_half_even_div a (Suc 0) = a"
  by (simp add: round_half_even_div_def)

lemma int_truediv_pow2_exact:
  assumes "\<bar>n\<bar> < 2 ^ 53"
  shows "int_truediv_pow2 n k = Inr (PyFloat n k)"
proof -
  have "nat \<bar>n\<bar> < 2 ^ 53" using assms by (simp add: nat_less_iff)
  then have "bit_length (nat \<bar>n\<bar>) \<le> 53" by (rule bit_length_bound)
  then show ?thesis
    by (auto simp add: int_truediv_pow2_def Let_def round_half_even_div_one)
qed

lemma show_nat_digit: "n < 10 \<Longrightarrow> show_nat n = [digit_char n]"
  by (subst show_nat.simps) simp

lemma zpad_two:
  assumes "k < 100"
  shows "zpad 2 k = [digit_char (k div 10), digit_char (k mod 10)]"
proof (cases "k < 10")
  case True
  then show ?thesis by (simp add: zpad_def show_nat_digit digit_char_values)
next
  case False
  with assms have "k div 10 < 10" by simp
  then have "show_nat k = [digit_char (k div 10), digit_char (k mod 10)]"
    using False by (subst show_nat.simps) (simp add: show_nat_digit)
  then show ?thesis by (simp add: zpad_def)
qed

lemma hundredths_near:
  "\<bar>real (hundredths (PyFloat a k)) / 100 - \<bar>real_of_int a\<bar> / 2 ^ k\<bar> \<le> 1 / 200"
proof -
  have "\<bar>real (round_half_even_div (nat \<bar>a\<bar> * 100) (2 ^ k))
          - real (nat \<bar>a\<bar> * 100) / real (2 ^ k)\<bar> \<le> 1 / 2"
    by (rule round_half_even_div_near) simp
  moreover have "real (nat \<bar>a\<bar> * 100) = \<bar>real_of_int a\<bar> * 100" by simp
  ultimately have "\<bar>real (hundredths (PyFloat a k)) - \<bar>real_of_int a\<bar> * 100 / 2 ^ k\<bar> \<le> 1 / 2"
    by (simp add: hundredths_def)
  then show ?thesis by (simp add: field_simps abs_le_iff)
qed

lemma format_2f_digits:
  "format_2f (PyFloat a k) =
     (if a < 0 then ''-'' else []) @ show_nat (hundredths (PyFloat a k) div 100) @ ''.''
       @ [digit_char (hundredths (PyFloat a k) mod 100 div 10),
          digit_char (hundredths (PyFloat a k) mod 10)]"
proof -
  have "hundredths (PyFloat a k) mod 100 mod 10 = hundredths (PyFloat a k) mod 10"
    by (simp add: mod_mod_cancel)
  then show ?thesis by (simp add: format_2f_def zpad_two)
qed

lemma bit_length_upper: "a < 2 ^ bit_length a"
proof (induction a rule: bit_length.induct)
  case (1 n)
  show ?case
  proof (cases "n = 0")
    case True
    then show ?thesis by simp
  next
    case False
    with 1 have "n div 2 < 2 ^ bit_length (n div 2)" by simp
    then have "n < 2 * 2 ^ bit_length (n div 2)" by linarith
    with False show ?thesis by (subst bit_length.simps) simp
  qed
qed

lemma bit_length_lower: "0 < a \<Longrightarrow> 2 ^ (bit_length a - 1) \<le> a"
proof (induction a rule: bit_length.induct)
  case (1 n)
  show ?case
  proof (cases "n div 2 = 0")
    case True
    with 1(2) have "n = 1" by linarith
    then show ?thesis by (simp add: bit_length.simps)
  next
    case False
    with 1 have ih: "2 ^ (bit_length (n div 2) - 1) \<le> n div 2" by simp
    from False have pos: "0 < bit_length (n div 2)" by (subst bit_length.simps) simp
    have "bit_length n = Suc (bit_length (n div 2))"
      using 1(2) by (subst bit_length.simps) simp
    then have "(2::nat) ^ (bit_length n - 1) = 2 * 2 ^ (bit_length (n div 2) - 1)"
      using pos by (cases "bit_length (n div 2)") simp_all
    with ih show ?thesis by linarith
  qed
qed

lemma bit_length_zero: "bit_length 0 = 0"
  by (subst bit_length.simps) simp

lemma round_to_53_bits:
  fixes a :: nat
  defines "s \<equiv> bit_length a - 53"
  defines "m \<equiv> round_half_even_div a (2 ^ s) * 2 ^ s"
  shows "\<bar>real m - real a\<bar> \<le> real a / 2 ^ 53"
    and "m \<le> 2 ^ bit_length a"
    and "a < 2 ^ 53 \<Longrightarrow> m = a"
    and "0 < a \<Longrightarrow> 0 < m"
proof -
  have near: "\<bar>real (round_half_even_div a (2 ^ s)) - real a / real (2 ^ s)\<bar> \<le> 1 / 2"
    by (rule round_half_even_div_near) simp
  have "real m - real a = (real (round_half_even_div a (2 ^ s)) - real a / 2 ^ s) * 2 ^ s"
    by (simp add: m_def left_diff_distrib)
  then have "\<bar>real m - real a\<bar> = \<bar>real (round_half_even_div a (2 ^ s)) - real a / 2 ^ s\<bar> * 2 ^ s"
    by (simp add: abs_mult)
  also have "\<dots> \<le> 1 / 2 * 2 ^ s"
    using near by (intro mult_right_mono) simp_all
  finally have err: "\<bar>real m - real a\<bar> \<le> 2 ^ s / 2" by simp
  have exact: "m = a" if "s = 0"
    using that by (simp add: m_def round_half_even_div_one)
  have low: "2 ^ 52 * 2 ^ s \<le> a" if "s \<noteq> 0"
  proof -
    from that have big: "53 < bit_length a" unfolding s_def by simp
    then have L: "bit_length a - 1 = 52 + s" unfolding s_def by simp
    have pos: "0 < a"
    proof (rule ccontr)
      assume "\<not> 0 < a"
      then have "bit_length a = 0" by (simp add: bit_length_zero)
      with big show False by simp
    qed
    from bit_length_lower[OF pos] L have "2 ^ (52 + s) \<le> a" by simp
    then show ?thesis by (simp only: power_add)
  qed
  show "\<bar>real m - real a\<bar> \<le> real a / 2 ^ 53"
  proof (cases "s = 0")
    case True
    then show ?thesis by (simp add: exact)
  next
    case False
    from low[OF False] have "real (2 ^ 52 * 2 ^ s) \<le> real a" by (simp only: of_nat_le_iff)
    then have "(2::real) ^ 52 * 2 ^ s \<le> real a" by simp
    then have "(2::real) ^ s / 2 \<le> real a / 2 ^ 53" by simp
    with err show ?thesis by linarith
  qed
  show "a < 2 ^ 53 \<Longrightarrow> m = a"
    using bit_length_bound[of a 53] exact by (simp add: s_def)
  have sle: "s \<le> bit_length a" by (simp add: s_def)
  have "(2::nat) ^ ((bit_length a - s) + s) = 2 ^ (bit_length a - s) * 2 ^ s"
    by (rule power_add)
  with sle have split: "(2::nat) ^ bit_length a = 2 ^ (bit_length a - s) * 2 ^ s"
    by simp
  have q: "a div 2 ^ s < 2 ^ (bit_length a - s)"
    using bit_length_upper[of a] split by (simp add: less_mult_imp_div_less)
  have "round_half_even_div a (2 ^ s) \<le> a div 2 ^ s + 1"
    by (simp add: round_half_even_div_def Let_def)
  with q have "round_half_even_div a (2 ^ s) \<le> 2 ^ (bit_length a - s)" by linarith
  then have "m \<le> 2 ^ (bit_length a - s) * 2 ^ s" by (simp add: m_def)
  then show "m \<le> 2 ^ bit_length a" by (simp only: split)
  show "0 < m" if "0 < a"
  proof (cases "s = 0")
    case True
    with that show ?thesis by (simp add: exact)
  next
    case False
    from low[OF False] have "2 ^ 52 \<le> a div 2 ^ s"
      by (simp add: less_eq_div_iff_mult_less_eq)
    moreover have "a div 2 ^ s \<le> round_half_even_div a (2 ^ s)"
      by (simp add: round_half_even_div_def Let_def)
    ultimately have "0 < round_half_even_div a (2 ^ s)"
      by (meson le_trans less_le_trans zero_less_numeral zero_less_power)
    then show ?thesis by (simp add: m_def)
  qed
qed

lemma int_truediv_pow2_rounded:
  assumes "\<bar>n\<bar> < 2 ^ (1023 + k)"
  shows "\<exists>m. int_truediv_pow2 n k = Inr (PyFloat (if n < 0 then - int m else int m) k)
            \<and> \<bar>real m - \<bar>real_of_int n\<bar>\<bar> \<le> \<bar>real_of_int n\<bar> / 2 ^ 53
            \<and> (\<bar>n\<bar> < 2 ^ 53 \<longrightarrow> int m = \<bar>n\<bar>)
            \<and> (n < 0 \<longrightarrow> 0 < m)"
proof -
  define a where "a = nat \<bar>n\<bar>"
  define m where "m = round_half_even_div a (2 ^ (bit_length a - 53)) * 2 ^ (bit_length a - 53)"
  have ra: "real a = \<bar>real_of_int n\<bar>" by (simp add: a_def)
  have "a < 2 ^ (1023 + k)" using assms by (simp add: a_def nat_less_iff)
  then have La: "bit_length a \<le> 1023 + k" by (rule bit_length_bound)
  have "m \<le> 2 ^ bit_length a" unfolding m_def by (rule round_to_53_bits)
  moreover have "(2::nat) ^ bit_length a < 2 ^ Suc (bit_length a)" by simp
  ultimately have "m < 2 ^ Suc (bit_length a)" by (rule le_less_trans)
  then have "bit_length m \<le> Suc (bit_length a)" by (rule bit_length_bound)
  with La have fits: "\<not> 1024 + k < bit_length m" by simp
  have 1: "int_truediv_pow2 n k = Inr (PyFloat (if n < 0 then - int m else int m) k)"
    using fits unfolding int_truediv_pow2_def Let_def a_def[symmetric] m_def[symmetric]
    by simp
  have 2: "\<bar>real m - \<bar>real_of_int n\<bar>\<bar> \<le> \<bar>real_of_int n\<bar> / 2 ^ 53"
    using round_to_53_bits(1)[of a] unfolding m_def[symmetric] ra .
  have 3: "\<bar>n\<bar> < 2 ^ 53 \<longrightarrow> int m = \<bar>n\<bar>"
  proof
    assume "\<bar>n\<bar> < 2 ^ 53"
    then have "a < 2 ^ 53" by (simp add: a_def nat_less_iff)
    then have "m = a" unfolding m_def by (rule round_to_53_bits)
    then show "int m = \<bar>n\<bar>" by (simp add: a_def)
  qed
  have 4: "n < 0 \<longrightarrow> 0 < m"
  proof
    assume "n < 0"
    then have "0 < a" by (simp add: a_def)
    then show "0 < m" unfolding m_def by (rule round_to_53_bits)
  qed
  from 1 2 3 4 show ?thesis by blast
qed

lemma queue_text_empty:
  assumes "map_of kvs ''records'' = None \<or> map_of kvs ''records'' = Some (JArr [])"
  shows "queue_text render_item (JObj kvs) = Inr ''Download queue is empty.''"
  using assms by (auto simp add: queue_text_def py_get_def py_truthy_def bindE_def)

lemma progress_line_rounds:
  assumes "map_of fs ''sizeleft'' = Some (JInt n)" and "\<bar>n\<bar> < 2 ^ 1043"
  shows "\<exists>m h. \<bar>real m - \<bar>real_of_int n\<bar>\<bar> \<le> \<bar>real_of_int n\<bar> / 2 ^ 53
             \<and> (\<bar>n\<bar> < 2 ^ 53 \<longrightarrow> int m = \<bar>n\<bar>)
             \<and> \<bar>real h / 100 - real m / 1024 ^ 2\<bar> \<le> 1 / 200
             \<and> progress_line (JObj fs)
                 = Inr (''  Progress: '' @ (if n < 0 then ''-'' else [])
                        @ show_nat (h div 100) @ ''.''
                        @ [digit_char (h mod 100 div 10), digit_char (h mod 10)]
                        @ '' MB remaining\<newline>\<newline>'')"
proof -
  from assms(2) have "\<bar>n\<bar> < 2 ^ (1023 + 20)" by simp
  from int_truediv_pow2_rounded[OF this] obtain m where
    q: "int_truediv_pow2 n 20 = Inr (PyFloat (if n < 0 then - int m else int m) 20)"
    and e: "\<bar>real m - \<bar>real_of_int n\<bar>\<bar> \<le> \<bar>real_of_int n\<bar> / 2 ^ 53"
    and x: "\<bar>n\<bar> < 2 ^ 53 \<longrightarrow> int m = \<bar>n\<bar>"
    and p: "n < 0 \<longrightarrow> 0 < m"
    by blast
  define a where "a = (if n < 0 then - int m else int m)"
  define h where "h = hundredths (PyFloat a 20)"
  have sign: "a < 0 \<longleftrightarrow> n < 0" using p by (auto simp add: a_def)
  have mag: "\<bar>real_of_int a\<bar> = real m" by (simp add: a_def)
  have "\<bar>real h / 100 - \<bar>real_of_int a\<bar> / 2 ^ 20\<bar> \<le> 1 / 200"
    unfolding h_def by (rule hundredths_near)
  then have near: "\<bar>real h / 100 - real m / 1024 ^ 2\<bar> \<le> 1 / 200"
    by (simp add: mag)
  have "progress_line (JObj fs)
          = Inr (''  Progress: '' @ format_2f (PyFloat a 20) @ '' MB remaining\<newline>\<newline>'')"
    using assms(1) q
    by (simp add: progress_line_def py_get_def py_truediv_pow2_def bindE_def a_def)
  then have "progress_line (JObj fs)
                 = Inr (''  Progress: '' @ (if n < 0 then ''-'' else [])
                        @ show_nat (h div 100) @ ''.''
                        @ [digit_char (h mod 100 div 10), digit_char (h mod 10)]
                        @ '' MB remaining\<newline>\<newline>'')"
    by (simp add: format_2f_digits sign h_def)
  with e x near show ?thesis by blast
qed

lemma progress_line_absent:
  assumes "map_of fs ''sizeleft'' = None"
  shows "progress_line (JObj fs) = Inr ''  Progress: 0.00 MB remaining\<newline>\<newline>''"
proof -
  have "int_truediv_pow2 0 20 = Inr (PyFloat 0 20)"
    by (rule int_truediv_pow2_exact) simp
  moreover have "format_2f (PyFloat 0 20) = ''0.00''"
    by (simp add: format_2f_digits hundredths_def round_half_even_div_def show_nat_digit
        digit_char_values)
  ultimately show ?thesis
    using assms by (simp add: progress_line_def py_get_def py_truediv_pow2_def bindE_def)
qed

text \<open>Each renderer appends to the text so far a block that depends on the record alone.\<close>

lemma render_sonarr_item_append:
  "render_sonarr_item result item
     = (case render_sonarr_item [] item of Inl e \<Rightarrow> Inl e | Inr b \<Rightarrow> Inr (result @ b))"
  by (simp add: render_sonarr_item_def bindE_def split: sum.splits)

lemma render_radarr_item_append:
  "render_radarr_item result item
     = (case render_radarr_item [] item of Inl e \<Rightarrow> Inl e | Inr b \<Rightarrow> Inr (result @ b))"
  by (simp add: render_radarr_item_def bindE_def split: sum.splits)

lemma for_each_blocks:
  fixes render :: "string \<Rightarrow> json \<Rightarrow> py_exc + string"
  assumes app: "\<And>result item. render result item
                  = (case render [] item of Inl e \<Rightarrow> Inl e | Inr b \<Rightarrow> Inr (result @ b))"
    and "list_all2 (\<lambda>item block. render [] item = Inr block) items blocks"
  shows "for_each render acc items = Inr (acc @ concat blocks)"
  using assms(2)
proof (induction items blocks arbitrary: acc rule: list_all2_induct)
  case Nil
  then show ?case by simp
next
  case (Cons item items block blocks)
  from Cons.hyps(1) have "render acc item = Inr (acc @ block)"
    by (subst app) simp
  with Cons.IH[of "acc @ block"] show ?case by simp
qed

lemma for_each_raises:
  fixes render :: "string \<Rightarrow> json \<Rightarrow> py_exc + string"
  assumes app: "\<And>result item. render result item
                  = (case render [] item of Inl e \<Rightarrow> Inl e | Inr b \<Rightarrow> Inr (result @ b))"
    and "list_all2 (\<lambda>item block. render [] item = Inr block) items blocks"
    and "render [] bad = Inl e"
  shows "for_each render acc (items @ bad # rest) = Inl e"
  using assms(2)
proof (induction items blocks arbitrary: acc rule: list_all2_induct)
  case Nil
  have "render acc bad = Inl e" using assms(3) by (subst app) simp
  then show ?case by simp
next
  case (Cons item items block blocks)
  from Cons.hyps(1) have "render acc item = Inr (acc @ block)"
    by (subst app) simp
  with Cons.IH[of "acc @ block"] show ?case by simp
qed

lemma queue_text_records:
  assumes "map_of kvs ''records'' = Some (JArr items)" and "items \<noteq> []"
  shows "queue_text render_item (JObj kvs)
           = for_each render_item ''Current Download Queue:\<newline>\<newline>'' items"
  using assms
  by (simp add: queue_text_def py_get_def py_getitem_def py_truthy_def py_iter_def bindE_def)

lemma get_sonarr_queue_text:
  assumes "sonarr_client self = Some c" and "200 \<le> st" and "st < 300"
    and "remote (get_request c ''queue'') = Response st (JsonBody queue)"
  shows "get_sonarr_queue self remote
           = (queue_text render_sonarr_item queue, [get_request c ''queue''])"
  using assms
  by (simp add: get_sonarr_queue_def client_get_def api_get_request handle_outcome_def
      bind_io_def lift_io_def)

lemma get_radarr_queue_text:
  assumes "radarr_client self = Some c" and "200 \<le> st" and "st < 300"
    and "remote (get_request c ''queue'') = Response st (JsonBody queue)"
  shows "get_radarr_queue self remote
           = (queue_text render_radarr_item queue, [get_request c ''queue''])"
  using assms
  by (simp add: get_radarr_queue_def client_get_def api_get_request handle_outcome_def
      bind_io_def lift_io_def)

lemma render_sonarr_item_block:
  assumes "map_of fs ''series'' = Some series" and "py_getitem series ''title'' = Inr title"
    and "map_of fs ''episode'' = Some episode"
    and "py_getitem episode ''seasonNumber'' = Inr (JInt sn)"
    and "py_getitem episode ''episodeNumber'' = Inr (JInt en)"
    and "map_of fs ''status'' = Some status" and "progress_line (JObj fs) = Inr p"
  shows "render_sonarr_item [] (JObj fs)
           = Inr (''- '' @ py_str title @ '' - S'' @ format_02d_int sn @ ''E''
                  @ format_02d_int en @ ''\<newline>''
                  @ ''  Status: '' @ py_str status @ ''\<newline>'' @ p)"
  using assms
  by (simp add: render_sonarr_item_def bindE_def py_getitem_def py_format_02d_def)

lemma render_radarr_item_block:
  assumes "map_of fs ''movie'' = Some movie" and "py_getitem movie ''title'' = Inr title"
    and "py_get movie ''year'' (JStr ''N/A'') = Inr year"
    and "map_of fs ''status'' = Some status" and "progress_line (JObj fs) = Inr p"
  shows "render_radarr_item [] (JObj fs)
           = Inr (''- '' @ py_str title @ '' ('' @ py_str year @ '')\<newline>''
                  @ ''  Status: '' @ py_str status @ ''\<newline>'' @ p)"
  using assms
  by (simp add: render_radarr_item_def bindE_def py_getitem_def)

text \<open>
  C7. Let the backend answer the queue request with a 2xx status and a JSON object. If its
  \<open>records\<close> entry is absent or the empty list, the queue operation returns exactly
  \<open>Download queue is empty.\<close>. Otherwise it returns the header followed by one block for
  each record, in order, and if a record cannot be rendered it raises that record's error.
  The block of a record gives its title line, its status and its progress line. For a
  record whose \<open>sizeleft\<close> is the integer \<open>n\<close>, the number in the progress line is
  \<open>n / 1024 ^ 2\<close> as a double (numerator of magnitude \<open>m\<close>: \<open>n\<close> itself below \<open>2 ^ 53\<close>,
  within a relative error of \<open>2 ^ -53\<close> beyond), printed with the sign of \<open>n\<close>, its integer
  part and exactly two decimals, the printed value within half a hundredth of the double;
  a record without \<open>sizeleft\<close> prints \<open>0.00\<close>. All this holds for each backend under its
  own client alone.
\<close>

theorem queue_megabytes_and_empty:
  "(sonarr_client self = Some c \<and> 200 \<le> st \<and> st < 300
      \<and> remote (get_request c ''queue'') = Response st (JsonBody (JObj kvs)) \<longrightarrow>
      (map_of kvs ''records'' = None \<or> map_of kvs ''records'' = Some (JArr []) \<longrightarrow>
         get_sonarr_queue self remote
           = (Inr ''Download queue is empty.'', [get_request c ''queue'']))
      \<and> (map_of kvs ''records'' = Some (JArr items) \<and> items \<noteq> []
           \<and> list_all2 (\<lambda>item block. render_sonarr_item [] item = Inr block) items blocks \<longrightarrow>
         get_sonarr_queue self remote
           = (Inr (''Current Download Queue:\<newline>\<newline>'' @ concat blocks),
              [get_request c ''queue'']))
      \<and> (map_of kvs ''records'' = Some (JArr (items @ bad # rest))
           \<and> list_all2 (\<lambda>item block. render_sonarr_item [] item = Inr block) items blocks
           \<and> render_sonarr_item [] bad = Inl e \<longrightarrow>
         get_sonarr_queue self remote = (Inl e, [get_request c ''queue''])))
   \<and> (radarr_client self = Some c \<and> 200 \<le> st \<and> st < 300
      \<and> remote (get_request c ''queue'') = Response st (JsonBody (JObj kvs)) \<longrightarrow>
      (map_of kvs ''records'' = None \<or> map_of kvs ''records'' = Some (JArr []) \<longrightarrow>
         get_radarr_queue self remote
           = (Inr ''Download queue is empty.'', [get_request c ''queue'']))
      \<and> (map_of kvs ''records'' = Some (JArr items) \<and> items \<noteq> []
           \<and> list_all2 (\<lambda>item block. render_radarr_item [] item = Inr block) items blocks \<longrightarrow>
         get_radarr_queue self remote
           = (Inr (''Current Download Queue:\<newline>\<newline>'' @ concat blocks),
              [get_request c ''queue'']))
      \<and> (map_of kvs ''records'' = Some (JArr (items @ bad # rest))
           \<and> list_all2 (\<lambda>item block. render_radarr_item [] item = Inr block) items blocks
           \<and> render_radarr_item [] bad = Inl e \<longrightarrow>
         get_radarr_queue self remote = (Inl e, [get_request c ''queue''])))
   \<and> (map_of fs ''series'' = Some series \<and> py_getitem series ''title'' = Inr title
        \<and> map_of fs ''episode'' = Some episode
        \<and> py_getitem episode ''seasonNumber'' = Inr (JInt sn)
        \<and> py_getitem episode ''episodeNumber'' = Inr (JInt en)
        \<and> map_of fs ''status'' = Some status \<and> progress_line (JObj fs) = Inr p \<longrightarrow>
        render_sonarr_item [] (JObj fs)
          = Inr (''- '' @ py_str title @ '' - S'' @ format_02d_int sn @ ''E''
                 @ format_02d_int en @ ''\<newline>''
                 @ ''  Status: '' @ py_str status @ ''\<newline>'' @ p))
   \<and> (map_of fs ''movie'' = Some movie \<and> py_getitem movie ''title'' = Inr title
        \<and> py_get movie ''year'' (JStr ''N/A'') = Inr year
        \<and> map_of fs ''status'' = Some status \<and> progress_line (JObj fs) = Inr p \<longrightarrow>
        render_radarr_item [] (JObj fs)
          = Inr (''- '' @ py_str title @ '' ('' @ py_str year @ '')\<newline>''
                 @ ''  Status: '' @ py_str status @ ''\<newline>'' @ p))
   \<and> (map_of fs ''sizeleft'' = Some (JInt n) \<and> \<bar>n\<bar> < 2 ^ 1043 \<longrightarrow>
        (\<exists>m h. \<bar>real m - \<bar>real_of_int n\<bar>\<bar> \<le> \<bar>real_of_int n\<bar> / 2 ^ 53
             \<and> (\<bar>n\<bar> < 2 ^ 53 \<longrightarrow> int m = \<bar>n\<bar>)
             \<and> \<bar>real h / 100 - real m / 1024 ^ 2\<bar> \<le> 1 / 200
             \<and> progress_line (JObj fs)
                 = Inr (''  Progress: '' @ (if n < 0 then ''-'' else [])
                        @ show_nat (h div 100) @ ''.''
                        @ [digit_char (h mod 100 div 10), digit_char (h mod 10)]
                        @ '' MB remaining\<newline>\<newline>'')))
   \<and> (map_of fs ''sizeleft'' = None \<longrightarrow>
        progress_line (JObj fs) = Inr ''  Progress: 0.00 MB remaining\<newline>\<newline>'')"
proof (intro conjI impI)
  assume a: "sonarr_client self = Some c \<and> 200 \<le> st \<and> st < 300
      \<and> remote (get_request c ''queue'') = Response st (JsonBody (JObj kvs))"
  then have op: "get_sonarr_queue self remote
                   = (queue_text render_sonarr_item (JObj kvs), [get_request c ''queue''])"
    using get_sonarr_queue_text by blast
  show "get_sonarr_queue self remote
           = (Inr ''Download queue is empty.'', [get_request c ''queue''])"
    if "map_of kvs ''records'' = None \<or> map_of kvs ''records'' = Some (JArr [])"
    using that by (simp add: op queue_text_empty)
  show "get_sonarr_queue self remote
           = (Inr (''Current Download Queue:\<newline>\<newline>'' @ concat blocks),
              [get_request c ''queue''])"
    if "map_of kvs ''records'' = Some (JArr items) \<and> items \<noteq> []
           \<and> list_all2 (\<lambda>item block. render_sonarr_item [] item = Inr block) items blocks"
    using that for_each_blocks[of render_sonarr_item items blocks, OF render_sonarr_item_append]
    by (simp add: op queue_text_records)
  show "get_sonarr_queue self remote = (Inl e, [get_request c ''queue''])"
    if "map_of kvs ''records'' = Some (JArr (items @ bad # rest))
           \<and> list_all2 (\<lambda>item block. render_sonarr_item [] item = Inr block) items blocks
           \<and> render_sonarr_item [] bad = Inl e"
    using that
      for_each_raises[of render_sonarr_item items blocks bad e, OF render_sonarr_item_append]
    by (simp add: op queue_text_records)
next
  assume a: "radarr_client self = Some c \<and> 200 \<le> st \<and> st < 300
      \<and> remote (get_request c ''queue'') = Response st (JsonBody (JObj kvs))"
  then have op: "get_radarr_queue self remote
                   = (queue_text render_radarr_item (JObj kvs), [get_request c ''queue''])"
    using get_radarr_queue_text by blast
  show "get_radarr_queue self remote
           = (Inr ''Download queue is empty.'', [get_request c ''queue''])"
    if "map_of kvs ''records'' = None \<or> map_of kvs ''records'' = Some (JArr [])"
    using that by (simp add: op queue_text_empty)
  show "get_radarr_queue self remote
           = (Inr (''Current Download Queue:\<newline>\<newline>'' @ concat blocks),
              [get_request c ''queue''])"
    if "map_of kvs ''records'' = Some (JArr items) \<and> items \<noteq> []
           \<and> list_all2 (\<lambda>item block. render_radarr_item [] item = Inr block) items blocks"
    using that for_each_blocks[of render_radarr_item items blocks, OF render_radarr_item_append]
    by (simp add: op queue_text_records)
  show "get_radarr_queue self remote = (Inl e, [get_request c ''queue''])"
    if "map_of kvs ''records'' = Some (JArr (items @ bad # rest))
           \<and> list_all2 (\<lambda>item block. render_radarr_item [] item = Inr block) items blocks
           \<and> render_radarr_item [] bad = Inl e"
    using that
      for_each_raises[of render_radarr_item items blocks bad e, OF render_radarr_item_append]
    by (simp add: op queue_text_records)
next
  show "render_sonarr_item [] (JObj fs)
          = Inr (''- '' @ py_str title @ '' - S'' @ format_02d_int sn @ ''E''
                 @ format_02d_int en @ ''\<newline>''
                 @ ''  Status: '' @ py_str status @ ''\<newline>'' @ p)"
    if "map_of fs ''series'' = Some series \<and> py_getitem series ''title'' = Inr title
        \<and> map_of fs ''episode'' = Some episode
        \<and> py_getitem episode ''seasonNumber'' = Inr (JInt sn)
        \<and> py_getitem episode ''episodeNumber'' = Inr (JInt en)
        \<and> map_of fs ''status'' = Some status \<and> progress_line (JObj fs) = Inr p"
    using that render_sonarr_item_block by blast
  show "render_radarr_item [] (JObj fs)
          = Inr (''- '' @ py_str title @ '' ('' @ py_str year @ '')\<newline>''
                 @ ''  Status: '' @ py_str status @ ''\<newline>'' @ p)"
    if "map_of fs ''movie'' = Some movie \<and> py_getitem movie ''title'' = Inr title
        \<and> py_get movie ''year'' (JStr ''N/A'') = Inr year
        \<and> map_of fs ''status'' = Some status \<and> progress_line (JObj fs) = Inr p"
    using that render_radarr_item_block by blast
  show "\<exists>m h. \<bar>real m - \<bar>real_of_int n\<bar>\<bar> \<le> \<bar>real_of_int n\<bar> / 2 ^ 53
             \<and> (\<bar>n\<bar> < 2 ^ 53 \<longrightarrow> int m = \<bar>n\<bar>)
             \<and> \<bar>real h / 100 - real m / 1024 ^ 2\<bar> \<le> 1 / 200
             \<and> progress_line (JObj fs)
                 = Inr (''  Progress: '' @ (if n < 0 then ''-'' else [])
                        @ show_nat (h div 100) @ ''.''
                        @ [digit_char (h mod 100 div 10), digit_char (h mod 10)]
                        @ '' MB remaining\<newline>\<newline>'')"
    if "map_of fs ''sizeleft'' = Some (JInt n) \<and> \<bar>n\<bar> < 2 ^ 1043"
    using that progress_line_rounds[of fs n] by blast
  show "progress_line (JObj fs) = Inr ''  Progress: 0.00 MB remaining\<newline>\<newline>''"
    if "map_of fs ''sizeleft'' = None"
    using that by (rule progress_line_absent)
qed

lemma example_progress_lines:
  "progress_line example_queue_item = Inr ''  Progress: 1.50 MB remaining\<newline>\<newline>''"
  "progress_line example_movie_item = Inr ''  Progress: 0.12 MB remaining\<newline>\<newline>''"
proof -
  have "int_truediv_pow2 1572864 20 = Inr (PyFloat 1572864 20)"
    by (rule int_truediv_pow2_exact) simp
  moreover have "format_2f (PyFloat 1572864 20) = ''1.50''"
    by (simp add: format_2f_digits hundredths_def round_half_even_div_def show_nat_digit
        digit_char_values)
  ultimately show "progress_line example_queue_item
                     = Inr ''  Progress: 1.50 MB remaining\<newline>\<newline>''"
    by (simp add: example_queue_item_def progress_line_def py_get_def py_truediv_pow2_def
        bindE_def)
  have "int_truediv_pow2 131072 20 = Inr (PyFloat 131072 20)"
    by (rule int_truediv_pow2_exact) simp
  moreover have "format_2f (PyFloat 131072 20) = ''0.12''"
    by (simp add: format_2f_digits hundredths_def round_half_even_div_def show_nat_digit
        digit_char_values)
  ultimately show "progress_line example_movie_item
                     = Inr ''  Progress: 0.12 MB remaining\<newline>\<newline>''"
    by (simp add: example_movie_item_def progress_line_def py_get_def py_truediv_pow2_def
        bindE_def)
qed

theorem queue_megabytes_and_empty_witness:
  "get_sonarr_queue (init_mcp sonarr_config)
       (remote_json (JObj [(''records'', JArr [example_queue_item])]))
     = (Inr (''Current Download Queue:\<newline>\<newline>''
             @ ''- Alpha - S01E02\<newline>''
             @ ''  Status: downloading\<newline>''
             @ ''  Progress: 1.50 MB remaining\<newline>\<newline>''),
        [get_request sonarr_api ''queue''])
   \<and> get_radarr_queue (init_mcp radarr_config)
       (remote_json (JObj [(''records'', JArr [example_movie_item])]))
     = (Inr (''Current Download Queue:\<newline>\<newline>''
             @ ''- Gamma (2022)\<newline>''
             @ ''  Status: paused\<newline>''
             @ ''  Progress: 0.12 MB remaining\<newline>\<newline>''),
        [get_request radarr_api ''queue''])
   \<and> get_sonarr_queue (init_mcp sonarr_config) (remote_json (JObj []))
     = (Inr ''Download queue is empty.'', [get_request sonarr_api ''queue''])
   \<and> get_radarr_queue (init_mcp radarr_config) (remote_json (JObj [(''records'', JArr [])]))
     = (Inr ''Download queue is empty.'', [get_request radarr_api ''queue''])
   \<and> get_sonarr_queue (init_mcp sonarr_config)
       (remote_json (JObj [(''records'', JArr [example_queue_item, broken_queue_item])]))
     = (Inl (KeyError ''series''), [get_request sonarr_api ''queue''])
   \<and> (\<exists>h. \<bar>real h / 100 - 1572864 / 1024 ^ 2\<bar> \<le> 1 / 200
          \<and> progress_line example_queue_item
              = Inr (''  Progress: '' @ show_nat (h div 100) @ ''.''
                     @ [digit_char (h mod 100 div 10), digit_char (h mod 10)]
                     @ '' MB remaining\<newline>\<newline>''))"
proof -
  let ?sfs = "[(''series'', JObj [(''title'', JStr ''Alpha'')]),
     (''episode'', JObj [(''seasonNumber'', JInt 1), (''episodeNumber'', JInt 2)]),
     (''status'', JStr ''downloading''), (''sizeleft'', JInt 1572864)]"
  let ?mfs = "[(''movie'', JObj [(''title'', JStr ''Gamma''), (''year'', JInt 2022)]),
     (''status'', JStr ''paused''), (''sizeleft'', JInt 131072)]"
  let ?sblock = "''- Alpha - S01E02\<newline>  Status: downloading\<newline>''
                   @ ''  Progress: 1.50 MB remaining\<newline>\<newline>''"
  let ?mblock = "''- Gamma (2022)\<newline>  Status: paused\<newline>''
                   @ ''  Progress: 0.12 MB remaining\<newline>\<newline>''"
  have two: "show_int 2022 = ''2022''" by code_simp
  have pads: "format_02d_int 1 = ''01''" "format_02d_int 2 = ''02''"
    by (simp_all add: format_02d_int_def zpad_two digit_char_values)
  have sblock: "render_sonarr_item [] example_queue_item = Inr ?sblock"
    using queue_megabytes_and_empty[where fs = ?sfs
        and series = "JObj [(''title'', JStr ''Alpha'')]" and title = "JStr ''Alpha''"
        and episode = "JObj [(''seasonNumber'', JInt 1), (''episodeNumber'', JInt 2)]"
        and sn = 1 and en = 2 and status = "JStr ''downloading''"
        and p = "''  Progress: 1.50 MB remaining\<newline>\<newline>''"]
      example_progress_lines(1)
    by (simp add: example_queue_item_def py_getitem_def py_str_def pads)
  have mblock: "render_radarr_item [] example_movie_item = Inr ?mblock"
    using queue_megabytes_and_empty[where fs = ?mfs
        and movie = "JObj [(''title'', JStr ''Gamma''), (''year'', JInt 2022)]"
        and title = "JStr ''Gamma''" and year = "JInt 2022" and status = "JStr ''paused''"
        and p = "''  Progress: 0.12 MB remaining\<newline>\<newline>''"]
      example_progress_lines(2)
    by (simp add: example_movie_item_def py_getitem_def py_get_def py_str_def py_repr.simps two)
  have bad: "render_sonarr_item [] broken_queue_item = Inl (KeyError ''series'')"
    by (simp add: render_sonarr_item_def broken_queue_item_def py_getitem_def bindE_def)
  have first: "get_sonarr_queue (init_mcp sonarr_config)
       (remote_json (JObj [(''records'', JArr [example_queue_item])]))
     = (Inr (''Current Download Queue:\<newline>\<newline>'' @ ?sblock),
        [get_request sonarr_api ''queue''])"
    using queue_megabytes_and_empty[where self = "init_mcp sonarr_config" and c = sonarr_api
        and st = 200 and kvs = "[(''records'', JArr [example_queue_item])]"
        and remote = "remote_json (JObj [(''records'', JArr [example_queue_item])])"
        and items = "[example_queue_item]" and blocks = "[?sblock]"]
      sonarr_only_client sblock
    by (simp add: remote_json_def)
  have second: "get_radarr_queue (init_mcp radarr_config)
       (remote_json (JObj [(''records'', JArr [example_movie_item])]))
     = (Inr (''Current Download Queue:\<newline>\<newline>'' @ ?mblock),
        [get_request radarr_api ''queue''])"
    using queue_megabytes_and_empty[where self = "init_mcp radarr_config" and c = radarr_api
        and st = 200 and kvs = "[(''records'', JArr [example_movie_item])]"
        and remote = "remote_json (JObj [(''records'', JArr [example_movie_item])])"
        and items = "[example_movie_item]" and blocks = "[?mblock]"]
      radarr_only_clients(2) mblock
    by (simp add: remote_json_def)
  have third: "get_sonarr_queue (init_mcp sonarr_config) (remote_json (JObj []))
     = (Inr ''Download queue is empty.'', [get_request sonarr_api ''queue''])"
    using queue_megabytes_and_empty[where self = "init_mcp sonarr_config" and c = sonarr_api
        and st = 200 and kvs = "[]" and remote = "remote_json (JObj [])"]
      sonarr_only_client
    by (simp add: remote_json_def)
  have fourth: "get_radarr_queue (init_mcp radarr_config)
       (remote_json (JObj [(''records'', JArr [])]))
     = (Inr ''Download queue is empty.'', [get_request radarr_api ''queue''])"
    using queue_megabytes_and_empty[where self = "init_mcp radarr_config" and c = radarr_api
        and st = 200 and kvs = "[(''records'', JArr [])]"
        and remote = "remote_json (JObj [(''records'', JArr [])])"]
      radarr_only_clients(2)
    by (simp add: remote_json_def)
  have fifth: "get_sonarr_queue (init_mcp sonarr_config)
       (remote_json (JObj [(''records'', JArr [example_queue_item, broken_queue_item])]))
     = (Inl (KeyError ''series''), [get_request sonarr_api ''queue''])"
    using queue_megabytes_and_empty[where self = "init_mcp sonarr_config" and c = sonarr_api
        and st = 200
        and kvs = "[(''records'', JArr [example_queue_item, broken_queue_item])]"
        and remote = "remote_json
                        (JObj [(''records'', JArr [example_queue_item, broken_queue_item])])"
        and items = "[example_queue_item]" and blocks = "[?sblock]"
        and bad = broken_queue_item and rest = "[]" and e = "KeyError ''series''"]
      sonarr_only_client sblock bad
    by (simp add: remote_json_def)
  have s: "map_of ?sfs ''sizeleft'' = Some (JInt 1572864)" by simp
  have b: "\<bar>1572864 :: int\<bar> < 2 ^ 1043" "\<bar>1572864 :: int\<bar> < 2 ^ 53" by simp_all
  from queue_megabytes_and_empty[where fs = ?sfs and n = 1572864] s b
  have "\<exists>m h. int m = 1572864
          \<and> \<bar>real h / 100 - real m / 1024 ^ 2\<bar> \<le> 1 / 200
          \<and> progress_line (JObj ?sfs)
              = Inr (''  Progress: '' @ show_nat (h div 100) @ ''.''
                     @ [digit_char (h mod 100 div 10), digit_char (h mod 10)]
                     @ '' MB remaining\<newline>\<newline>'')"
    by auto
  then obtain m h where m: "int m = 1572864"
    and n: "\<bar>real h / 100 - real m / 1024 ^ 2\<bar> \<le> 1 / 200"
    and p: "progress_line (JObj ?sfs)
              = Inr (''  Progress: '' @ show_nat (h div 100) @ ''.''
                     @ [digit_char (h mod 100 div 10), digit_char (h mod 10)]
                     @ '' MB remaining\<newline>\<newline>'')"
    by blast
  from m have "real m = 1572864" by (metis of_int_of_nat_eq of_int_numeral)
  with n p have sixth: "\<exists>h. \<bar>real h / 100 - 1572864 / 1024 ^ 2\<bar> \<le> 1 / 200
          \<and> progress_line example_queue_item
              = Inr (''  Progress: '' @ show_nat (h div 100) @ ''.''
                     @ [digit_char (h mod 100 div 10), digit_char (h mod 10)]
                     @ '' MB remaining\<newline>\<newline>'')"
    unfolding example_queue_item_def by auto
  from first second third fourth fifth sixth show ?thesis by simp
qed

end
